theory Spec2Isabelle
  imports Complex_Main
begin

section \<open>Genotype factorized variational autoencoder\<close>

text \<open>
  A shallow embedding of the notebook
  \<^verbatim>\<open>notebooks/genotype_factorized_variational_autoencoder.ipynb\<close>.
  Tensors of 32-bit floats are modelled by lists of real numbers (a matrix is the list
  of its rows), and the graph by the exact real-valued function it computes. Where the
  sign of a value depends on the rounding of \<^verbatim>\<open>tf.float32\<close>, which is the case for the
  scale of the posteriors, the float32 operations are modelled separately, by rounding
  to the nearest float32.
\<close>

subsection \<open>Configuration cell\<close>

text \<open>
  \<^verbatim>\<open>N = 100; M = 1000; D = 2; batch_size = N; epochs = 10\<close>.
  The four numbers are kept as parameters; \<open>batch_size\<close> is bound to \<open>N\<close> as in the
  notebook.
\<close>

record config =
  N :: nat
  M :: nat
  D :: nat
  epochs :: nat

definition batch_size :: "config \<Rightarrow> nat" where
  "batch_size cfg = N cfg"

definition notebook_config :: config where
  "notebook_config = \<lparr>N = 100, M = 1000, D = 2, epochs = 10\<rparr>"

subsection \<open>Tensor operations used by the graph\<close>

type_synonym vec = "real list"
type_synonym matrix = "real list list"

datatype error = InvalidArgumentError | OutOfRangeError | FailedPreconditionError

definition softplus :: "real \<Rightarrow> real" where
  "softplus x = ln (1 + exp x)"

definition sigmoid :: "real \<Rightarrow> real" where
  "sigmoid x = 1 / (1 + exp (- x))"

text \<open>
  \<^verbatim>\<open>tf.reshape(t, [r, c])\<close> on the row-major values of \<open>t\<close>: the number of elements
  must be \<open>r * c\<close>, otherwise the operation raises \<^verbatim>\<open>InvalidArgumentError\<close>.
\<close>

definition reshape :: "real list \<Rightarrow> nat \<Rightarrow> nat \<Rightarrow> error + matrix" where
  "reshape t r c =
     (if length t = r * c
      then Inr (map (\<lambda>i. take c (drop (i * c) t)) [0..<r])
      else Inl InvalidArgumentError)"

text \<open>\<^verbatim>\<open>tf.transpose\<close> of a matrix with \<open>c\<close> columns.\<close>

definition transpose_tf :: "nat \<Rightarrow> matrix \<Rightarrow> matrix" where
  "transpose_tf c X = map (\<lambda>j. map (\<lambda>row. row ! j) X) [0..<c]"

definition dot :: "vec \<Rightarrow> vec \<Rightarrow> real" where
  "dot x y = sum_list (map2 (*) x y)"

text \<open>
  The trainable variables of one \<^verbatim>\<open>tf.layers.dense\<close> layer: a kernel with one row per
  input column and one column per unit, and a bias with one entry per unit. The layer
  computes \<open>activation (inputs \<cdot> kernel + bias)\<close> row by row.
\<close>

record layer =
  kernel :: matrix
  bias :: vec

definition dense :: "matrix \<Rightarrow> nat \<Rightarrow> (real \<Rightarrow> real) \<Rightarrow> layer \<Rightarrow> matrix" where
  "dense inputs units activation L =
     map (\<lambda>x. map (\<lambda>j. activation (dot x (map (\<lambda>k. k ! j) (kernel L)) + bias L ! j))
                [0..<units])
         inputs"

subsection \<open>Distributions\<close>

text \<open>
  One row of a \<^verbatim>\<open>tfd.MultivariateNormalDiag\<close>: a location vector and the diagonal of
  the scale. A distribution with batch shape \<open>[n]\<close> is the list of its \<open>n\<close> rows.
\<close>

record mvn_diag =
  loc :: vec
  scale_diag :: vec

definition MultivariateNormalDiag :: "matrix \<Rightarrow> matrix \<Rightarrow> mvn_diag list" where
  "MultivariateNormalDiag locs scales =
     map2 (\<lambda>l s. \<lparr>loc = l, scale_diag = s\<rparr>) locs scales"

text \<open>
  Modelled from the spec: \<^verbatim>\<open>kl_divergence\<close> of the distributions library, which is not
  part of the notebook. Per row,
  \<open>0.5 * \<Sum>\<^sub>d ((s1/s2)\<^sup>2 + ((l2 - l1)/s2)\<^sup>2 - 1 + 2 * ln (s2/s1))\<close>.
\<close>

definition kl_term :: "real \<times> real \<Rightarrow> real \<times> real \<Rightarrow> real" where
  "kl_term a b =
     (case (a, b) of ((loc1, scale1), (loc2, scale2)) \<Rightarrow>
        (scale1 / scale2)\<^sup>2 + ((loc2 - loc1) / scale2)\<^sup>2 - 1 + 2 * ln (scale2 / scale1))"

text \<open>Modelled from the spec: the per-row sum of the terms over the latent dimensions,
  halved.\<close>

definition kl_row :: "mvn_diag \<Rightarrow> mvn_diag \<Rightarrow> real" where
  "kl_row q p =
     0.5 * sum_list (map2 kl_term (zip (loc q) (scale_diag q)) (zip (loc p) (scale_diag p)))"

text \<open>The divergence of every row of a batch to a prior without batch dimension.\<close>

definition kl_divergence :: "mvn_diag list \<Rightarrow> mvn_diag \<Rightarrow> real list" where
  "kl_divergence q p = map (\<lambda>row. kl_row row p) q"

text \<open>
  Modelled from the spec: \<^verbatim>\<open>sample()\<close>, the reparameterised draw
  \<open>location + scale * noise\<close>; \<open>noise i d\<close> is the standard normal draw for row \<open>i\<close> and
  latent dimension \<open>d\<close>.
\<close>

definition sample :: "mvn_diag list \<Rightarrow> (nat \<Rightarrow> nat \<Rightarrow> real) \<Rightarrow> matrix" where
  "sample q noise =
     map (\<lambda>(i, row). map (\<lambda>(d, l, s). l + s * noise i d)
                          (enumerate 0 (zip (loc row) (scale_diag row))))
         (enumerate 0 q)"

subsection \<open>Model specification cell\<close>

text \<open>The variables created by the eight dense layers of \<^verbatim>\<open>make_encoder\<close>.\<close>

record encoder_vars =
  u_dense1 :: layer
  u_dense2 :: layer
  u_dense3 :: layer
  u_dense4 :: layer
  v_dense1 :: layer
  v_dense2 :: layer
  v_dense3 :: layer
  v_dense4 :: layer

text \<open>The output of the last, linear layer of the sample path and of the site path.\<close>

definition u_net :: "encoder_vars \<Rightarrow> matrix \<Rightarrow> nat \<Rightarrow> matrix" where
  "u_net vars data z_dim =
     (let x = dense data 64 sigmoid (u_dense1 vars);
          x = dense x 32 sigmoid (u_dense2 vars);
          x = dense x 128 sigmoid (u_dense3 vars)
      in dense x (z_dim * 2) id (u_dense4 vars))"

definition v_net :: "encoder_vars \<Rightarrow> matrix \<Rightarrow> nat \<Rightarrow> nat \<Rightarrow> matrix" where
  "v_net vars data z_dim num_features =
     (let x_t = transpose_tf num_features data;
          x_t = dense x_t 64 sigmoid (v_dense1 vars);
          x_t = dense x_t 32 sigmoid (v_dense2 vars);
          x_t = dense x_t 16 sigmoid (v_dense3 vars)
      in dense x_t (z_dim * 2) id (v_dense4 vars))"

definition make_encoder ::
  "encoder_vars \<Rightarrow> real list \<Rightarrow> nat \<Rightarrow> nat \<Rightarrow> nat \<Rightarrow> error + mvn_diag list \<times> mvn_diag list" where
  "make_encoder vars data z_dim batch_sz num_features =
     (case reshape data batch_sz num_features of
        Inl e \<Rightarrow> Inl e
      | Inr data \<Rightarrow>
          (let u_loc = map (take z_dim) (u_net vars data z_dim);
               u_scale = map (\<lambda>r. map (\<lambda>x. softplus (x + 0.5)) (drop z_dim r))
                             (u_net vars data z_dim);
               u = MultivariateNormalDiag u_loc u_scale;
               v_loc = map (drop z_dim) (v_net vars data z_dim num_features);
               v_scale = map (\<lambda>r. map (\<lambda>x. softplus (x + 0.5)) (take z_dim r))
                             (v_net vars data z_dim num_features);
               v = MultivariateNormalDiag v_loc v_scale
           in Inr (u, v)))"

text \<open>
  The tensors of the graph are \<^verbatim>\<open>tf.float32\<close> (\<^verbatim>\<open>tf.cast(data, tf.float32)\<close>). A float32
  is an integer multiple of a power of two, with a 24-bit significand and exponents down
  to \<open>-149\<close>; an operation delivers the float32 nearest to its exact result, a tie going
  to the even multiple. \<open>float32_round\<close> is that rounding for results of magnitude below
  \<open>2\<^sup>1\<^sup>2\<^sup>8\<close> (overflow to infinity has no real value and is left out).
\<close>

definition round_half_even :: "real \<Rightarrow> int" where
  "round_half_even r =
     (let f = \<lfloor>r\<rfloor> in
      if r - of_int f < 1 / 2 then f
      else if 1 / 2 < r - of_int f then f + 1
      else if even f then f else f + 1)"

definition float32_round :: "real \<Rightarrow> real" where
  "float32_round x =
     (if x = 0 then 0
      else let ulp = 2 powr of_int (max (\<lfloor>log 2 \<bar>x\<bar>\<rfloor> - 23) (- 149))
           in of_int (round_half_even (x / ulp)) * ulp)"




text \<open>
  \<^verbatim>\<open>tfd.Independent(tfd.Binomial(logits=logits, total_count=2.0), 1)\<close>: the logits
  have shape \<open>[1, num_features * batch_size]\<close>.
\<close>

record binomial =
  logits :: matrix
  total_count :: real

text \<open>\<^verbatim>\<open>tf.tensordot(u, v, axes=[[1], [1]])\<close>: entry \<open>(i, j)\<close> contracts row \<open>i\<close> of \<open>u\<close> with
  row \<open>j\<close> of \<open>v\<close>.\<close>

definition tensordot :: "matrix \<Rightarrow> matrix \<Rightarrow> matrix" where
  "tensordot u v = map (\<lambda>u_i. map (\<lambda>v_j. dot u_i v_j) v) u"

definition make_decoder :: "matrix \<Rightarrow> matrix \<Rightarrow> nat \<Rightarrow> nat \<Rightarrow> nat \<Rightarrow> error + binomial" where
  "make_decoder u v batch_sz num_features z_dim =
     (let z = tensordot u v in
      case reshape (concat z) 1 (num_features * batch_sz) of
        Inl e \<Rightarrow> Inl e
      | Inr z \<Rightarrow> Inr \<lparr>logits = map (map softplus) z, total_count = 2\<rparr>)"

text \<open>
  \<^verbatim>\<open>MultivariateNormalDiag(scale_diag=tf.ones(z_dim))\<close>: no location is given, which
  the library reads as location zero.
\<close>

definition make_prior :: "nat \<Rightarrow> mvn_diag \<times> mvn_diag" where
  "make_prior z_dim =
     (let u_prior = \<lparr>loc = replicate z_dim 0, scale_diag = replicate z_dim 1\<rparr>;
          v_prior = \<lparr>loc = replicate z_dim 0, scale_diag = replicate z_dim 1\<rparr>
      in (u_prior, v_prior))"

text \<open>
  Modelled from the spec: \<^verbatim>\<open>log_prob\<close> of the Binomial distribution, which belongs to
  the distributions library. Each entry contributes the Binomial log-likelihood with
  success probability \<open>sigmoid logit\<close>; the logarithm of the binomial coefficient is
  written with the library's log-gamma function, which is a parameter \<open>lgamma\<close> here.
  The independence wrapper sums the entries of each row.
\<close>

definition binomial_log_prob :: "(real \<Rightarrow> real) \<Rightarrow> real \<Rightarrow> real \<Rightarrow> real \<Rightarrow> real" where
  "binomial_log_prob lgamma n logit k =
     k * ln (sigmoid logit) + (n - k) * ln (1 - sigmoid logit)
     - (lgamma (1 + n - k) + lgamma (1 + k) - lgamma (1 + n))"

definition log_prob :: "(real \<Rightarrow> real) \<Rightarrow> binomial \<Rightarrow> matrix \<Rightarrow> real list" where
  "log_prob lgamma distr x =
     map2 (\<lambda>ls ks. sum_list (map2 (binomial_log_prob lgamma (total_count distr)) ls ks))
          (logits distr) x"

text \<open>Modelled from the spec: the success probability of each factor, the logit being the
  natural parameter.\<close>

definition binomial_probs :: "binomial \<Rightarrow> matrix" where
  "binomial_probs distr = map (map sigmoid) (logits distr)"

text \<open>Modelled from the spec: the mean of a Binomial, \<open>total_count * probs\<close> (the
  expected genotype dosage).\<close>

definition binomial_mean :: "binomial \<Rightarrow> matrix" where
  "binomial_mean distr = map (map (\<lambda>p. total_count distr * p)) (binomial_probs distr)"

subsection \<open>Model and input pipeline cell\<close>

text \<open>The four scalars written to the summary, as computed in one run of the graph.\<close>

record metrics =
  elbo :: real
  minus_u_kl :: real
  minus_v_kl :: real
  likelihood :: real

text \<open>
  The graph of the cell, evaluated for one batch \<open>raw\<close> delivered by
  \<^verbatim>\<open>iterator.get_next()\<close> (int8 values in row-major order), the current variables and
  the noise of the two \<^verbatim>\<open>sample()\<close> operations. The first \<^verbatim>\<open>make_prior\<close> call binds both
  of its results to the name \<^verbatim>\<open>u_prior\<close>; the second call rebinds \<^verbatim>\<open>u_prior\<close> and
  binds \<^verbatim>\<open>v_prior\<close>.
\<close>

definition model_graph ::
  "(real \<Rightarrow> real) \<Rightarrow> config \<Rightarrow> encoder_vars \<Rightarrow> (nat \<Rightarrow> nat \<Rightarrow> real) \<Rightarrow> (nat \<Rightarrow> nat \<Rightarrow> real) \<Rightarrow>
     int list \<Rightarrow> error + metrics" where
  "model_graph lgamma cfg vars noise_u noise_v raw =
     (let data = map real_of_int raw;
          (u_prior_first, u_prior) = make_prior (D cfg)
      in case make_encoder vars data (D cfg) (batch_size cfg) (M cfg) of
           Inl e \<Rightarrow> Inl e
         | Inr (u_encoder, v_encoder) \<Rightarrow>
             (let u = sample u_encoder noise_u;
                  v = sample v_encoder noise_v
              in case make_decoder u v (batch_size cfg) (M cfg) (D cfg) of
                   Inl e \<Rightarrow> Inl e
                 | Inr decoder_p \<Rightarrow>
                     (let (u_prior, v_prior) = make_prior (D cfg);
                          u_kl = sum_list (kl_divergence u_encoder u_prior);
                          v_kl = sum_list (kl_divergence v_encoder v_prior)
                      in case reshape data 1 (N cfg * M cfg) of
                           Inl e \<Rightarrow> Inl e
                         | Inr observed \<Rightarrow>
                             (let likelihood = sum_list (log_prob lgamma decoder_p observed);
                                  elbo = - u_kl - v_kl + likelihood
                              in Inr \<lparr>elbo = elbo, minus_u_kl = - u_kl,
                                      minus_v_kl = - v_kl, likelihood = likelihood\<rparr>))))"

text \<open>The same graph with the prior built once, as the specification asks of a
  reimplementation.\<close>

definition model_graph_single_prior ::
  "(real \<Rightarrow> real) \<Rightarrow> config \<Rightarrow> encoder_vars \<Rightarrow> (nat \<Rightarrow> nat \<Rightarrow> real) \<Rightarrow> (nat \<Rightarrow> nat \<Rightarrow> real) \<Rightarrow>
     int list \<Rightarrow> error + metrics" where
  "model_graph_single_prior lgamma cfg vars noise_u noise_v raw =
     (let data = map real_of_int raw;
          (u_prior, v_prior) = make_prior (D cfg)
      in case make_encoder vars data (D cfg) (batch_size cfg) (M cfg) of
           Inl e \<Rightarrow> Inl e
         | Inr (u_encoder, v_encoder) \<Rightarrow>
             (let u = sample u_encoder noise_u;
                  v = sample v_encoder noise_v
              in case make_decoder u v (batch_size cfg) (M cfg) (D cfg) of
                   Inl e \<Rightarrow> Inl e
                 | Inr decoder_p \<Rightarrow>
                     (let u_kl = sum_list (kl_divergence u_encoder u_prior);
                          v_kl = sum_list (kl_divergence v_encoder v_prior)
                      in case reshape data 1 (N cfg * M cfg) of
                           Inl e \<Rightarrow> Inl e
                         | Inr observed \<Rightarrow>
                             (let likelihood = sum_list (log_prob lgamma decoder_p observed);
                                  elbo = - u_kl - v_kl + likelihood
                              in Inr \<lparr>elbo = elbo, minus_u_kl = - u_kl,
                                      minus_v_kl = - v_kl, likelihood = likelihood\<rparr>))))"

subsection \<open>Training cell\<close>

text \<open>
  The data source behind \<^verbatim>\<open>iterator\<close>, that is the record file decoded by
  \<^verbatim>\<open>decode_tfrecords\<close> and cut into batches: \<open>initializer\<close> is the position at the start
  of the dataset, \<open>get_next\<close> delivers the values of the next batch in row-major order and
  the new position, or \<open>None\<close> where the library raises \<^verbatim>\<open>OutOfRangeError\<close>.
\<close>

record 'it data_source =
  initializer :: 'it
  get_next :: "'it \<Rightarrow> (int list \<times> 'it) option"

text \<open>
  The parts of the library the run depends on beyond the graph itself: the log-gamma
  function, the noise of the two \<^verbatim>\<open>sample()\<close> operations in the \<open>n\<close>-th run of the
  graph, the initial values of the variables and of the optimizer's slots, and the
  update that \<^verbatim>\<open>AdamOptimizer(0.001).minimize\<close> performs for a loss given as a function
  of the variables.
\<close>

record 'o library =
  tf_lgamma :: "real \<Rightarrow> real"
  random_normal_u :: "nat \<Rightarrow> nat \<Rightarrow> nat \<Rightarrow> real"
  random_normal_v :: "nat \<Rightarrow> nat \<Rightarrow> nat \<Rightarrow> real"
  global_variables_initializer :: "encoder_vars \<times> 'o"
  minimize :: "(encoder_vars \<Rightarrow> error + real) \<Rightarrow> encoder_vars \<times> 'o \<Rightarrow> encoder_vars \<times> 'o"

type_synonym graph =
  "(real \<Rightarrow> real) \<Rightarrow> config \<Rightarrow> encoder_vars \<Rightarrow> (nat \<Rightarrow> nat \<Rightarrow> real) \<Rightarrow> (nat \<Rightarrow> nat \<Rightarrow> real) \<Rightarrow>
     int list \<Rightarrow> error + metrics"

text \<open>
  What the cell can observe and change: the variables and optimizer slots of the
  session, the position of the iterator (\<open>None\<close> before the first initialisation), the
  number of graph runs so far, the printed values and the summaries handed to the
  writer together with their step.
\<close>

record ('it, 'o) session =
  variables :: encoder_vars
  slots :: 'o
  iterator :: "'it option"
  runs :: nat
  stdout :: "real list"
  summaries :: "(metrics \<times> nat) list"

text \<open>
  \<^verbatim>\<open>sess.run([optimizer, merged, elbo])\<close>: pull a batch, evaluate the graph, and let the
  optimizer minimise \<^verbatim>\<open>-elbo\<close>. An exception leaves the session as it was.
\<close>

definition sess_run ::
  "graph \<Rightarrow> 'o library \<Rightarrow> config \<Rightarrow> 'it data_source \<Rightarrow> ('it, 'o) session \<Rightarrow>
     error + (metrics \<times> real) \<times> ('it, 'o) session" where
  "sess_run g lib cfg src s =
     (case iterator s of
        None \<Rightarrow> Inl FailedPreconditionError
      | Some it \<Rightarrow>
          (case get_next src it of
             None \<Rightarrow> Inl OutOfRangeError
           | Some (raw, it') \<Rightarrow>
               (let run = (\<lambda>vars. g (tf_lgamma lib) cfg vars
                                   (random_normal_u lib (runs s)) (random_normal_v lib (runs s)) raw)
                in case run (variables s) of
                     Inl e \<Rightarrow> Inl e
                   | Inr m \<Rightarrow>
                       (let (vars', slots') =
                              minimize lib (\<lambda>vars. map_sum id (\<lambda>m. - elbo m) (run vars))
                                (variables s, slots s)
                        in Inr ((m, elbo m),
                                s\<lparr>variables := vars', slots := slots', iterator := Some it',
                                  runs := Suc (runs s)\<rparr>)))))"

datatype 's outcome = Finished 's | Aborted error 's

text \<open>
  The \<^verbatim>\<open>while True\<close> loop of one epoch. Only \<^verbatim>\<open>OutOfRangeError\<close> is caught; any other
  exception leaves the loop and the cell. A data source that never signals exhaustion
  keeps the loop running, which is the value \<open>None\<close>.
\<close>

partial_function (option) batch_loop ::
  "graph \<Rightarrow> 'o library \<Rightarrow> config \<Rightarrow> 'it data_source \<Rightarrow> nat \<Rightarrow> ('it, 'o) session \<Rightarrow>
     ('it, 'o) session outcome option" where
  "batch_loop g lib cfg src epoch s =
     (case sess_run g lib cfg src s of
        Inl e \<Rightarrow> if e = OutOfRangeError then Some (Finished s) else Some (Aborted e s)
      | Inr ((tb_summary, epoch_elbo), s') \<Rightarrow>
          batch_loop g lib cfg src epoch
            (s'\<lparr>stdout := stdout s' @ [epoch_elbo],
                summaries := summaries s' @ [(tb_summary, epoch)]\<rparr>))"

text \<open>\<^verbatim>\<open>for epoch in range(epochs)\<close>, given the list of the remaining epochs.\<close>

fun epoch_loop ::
  "graph \<Rightarrow> 'o library \<Rightarrow> config \<Rightarrow> 'it data_source \<Rightarrow> nat list \<Rightarrow> ('it, 'o) session \<Rightarrow>
     ('it, 'o) session outcome option" where
  "epoch_loop g lib cfg src [] s = Some (Finished s)"
| "epoch_loop g lib cfg src (epoch # rest) s =
     (case batch_loop g lib cfg src epoch (s\<lparr>iterator := Some (initializer src)\<rparr>) of
        None \<Rightarrow> None
      | Some (Aborted e s') \<Rightarrow> Some (Aborted e s')
      | Some (Finished s') \<Rightarrow> epoch_loop g lib cfg src rest s')"

definition train ::
  "graph \<Rightarrow> 'o library \<Rightarrow> config \<Rightarrow> 'it data_source \<Rightarrow> ('it, 'o) session outcome option" where
  "train g lib cfg src =
     (let (vars, slots) = global_variables_initializer lib
      in epoch_loop g lib cfg src [0..<epochs cfg]
           \<lparr>variables = vars, slots = slots, iterator = None, runs = 0,
            stdout = [], summaries = []\<rparr>)"

subsection \<open>Observations and sample inputs\<close>

text \<open>
  \<open>yields src it bs\<close>: read from position \<open>it\<close>, the data source delivers exactly the
  batches \<open>bs\<close> and then signals exhaustion.
\<close>

fun yields :: "'it data_source \<Rightarrow> 'it \<Rightarrow> int list list \<Rightarrow> bool" where
  "yields src it [] = (get_next src it = None)"
| "yields src it (b # bs) =
     (case get_next src it of
        None \<Rightarrow> False
      | Some (raw, it') \<Rightarrow> raw = b \<and> yields src it' bs)"

definition raised :: "'s outcome \<Rightarrow> error option" where
  "raised out = (case out of Finished s \<Rightarrow> None | Aborted e s \<Rightarrow> Some e)"

definition final_session :: "'s outcome \<Rightarrow> 's" where
  "final_session out = (case out of Finished s \<Rightarrow> s | Aborted e s \<Rightarrow> s)"

text \<open>The steps under which the summaries were written, and the number of printed
  values.\<close>

definition logged_epochs :: "('it, 'o) session outcome \<Rightarrow> nat list" where
  "logged_epochs out = map snd (summaries (final_session out))"

definition printed :: "('it, 'o) session outcome \<Rightarrow> nat" where
  "printed out = length (stdout (final_session out))"

text \<open>A data source that holds its batches in a list.\<close>

definition list_source :: "int list list \<Rightarrow> int list list data_source" where
  "list_source batches =
     \<lparr>initializer = batches,
      get_next = (\<lambda>it. case it of [] \<Rightarrow> None | raw # rest \<Rightarrow> Some (raw, rest))\<rparr>"

text \<open>Variables of the shapes the layers create, all zero.\<close>

definition zero_layer :: "nat \<Rightarrow> nat \<Rightarrow> layer" where
  "zero_layer inputs units =
     \<lparr>kernel = replicate inputs (replicate units 0), bias = replicate units 0\<rparr>"

definition zero_vars :: "config \<Rightarrow> encoder_vars" where
  "zero_vars cfg =
     \<lparr>u_dense1 = zero_layer (M cfg) 64, u_dense2 = zero_layer 64 32,
      u_dense3 = zero_layer 32 128, u_dense4 = zero_layer 128 (D cfg * 2),
      v_dense1 = zero_layer (batch_size cfg) 64, v_dense2 = zero_layer 64 32,
      v_dense3 = zero_layer 32 16, v_dense4 = zero_layer 16 (D cfg * 2)\<rparr>"

text \<open>
  A library instance for concrete runs: log-gamma on the positive integers, no noise,
  zero initial variables and an optimizer that leaves the variables as they are.
\<close>

definition frozen_library :: "config \<Rightarrow> unit library" where
  "frozen_library cfg =
     \<lparr>tf_lgamma = (\<lambda>x. ln (fact (nat \<lfloor>x\<rfloor> - 1))),
      random_normal_u = (\<lambda>n i d. 0),
      random_normal_v = (\<lambda>n i d. 0),
      global_variables_initializer = (zero_vars cfg, ()),
      minimize = (\<lambda>loss state. state)\<rparr>"


definition small_config :: "nat \<Rightarrow> config" where
  "small_config n = \<lparr>N = 2, M = 1, D = 1, epochs = n\<rparr>"

definition start_session :: "'o library \<Rightarrow> 'it option \<Rightarrow> ('it, 'o) session" where
  "start_session lib it =
     \<lparr>variables = fst (global_variables_initializer lib),
      slots = snd (global_variables_initializer lib), iterator = it, runs = 0,
      stdout = [], summaries = []\<rparr>"

section \<open>Properties\<close>

subsection \<open>Activation functions and tensor shapes\<close>

lemma softplus_pos: "0 < softplus x"
  by (simp add: softplus_def ln_gt_zero)


lemma softplus_nonneg: "0 \<le> softplus x"
  using softplus_pos [of x] by simp

lemma sigmoid_ge_half: "0 \<le> x \<Longrightarrow> 1 / 2 \<le> sigmoid x"
proof -
  assume "0 \<le> x"
  then have "exp (- x) \<le> 1" by simp
  then have "1 + exp (- x) \<le> 2" by simp
  moreover have "0 < 1 + exp (- x)" by (simp add: add_pos_pos)
  ultimately show ?thesis
    unfolding sigmoid_def by (simp add: field_simps)
qed

lemma reshape_Inr_iff: "(\<exists>X. reshape t r c = Inr X) \<longleftrightarrow> length t = r * c"
  by (simp add: reshape_def)

lemma reshape_length: "reshape t r c = Inr X \<Longrightarrow> length X = r"
  by (auto simp: reshape_def split: if_splits)

lemma reshape_one_row: "length t = k \<Longrightarrow> reshape t 1 k = Inr [t]"
  by (simp add: reshape_def)

lemma length_dense: "length (dense X n a L) = length X"
  by (simp add: dense_def)

lemma dense_nth_length: "i < length X \<Longrightarrow> length (dense X n a L ! i) = n"
  by (simp add: dense_def)

lemma length_u_net: "length (u_net vars X z) = length X"
  by (simp add: u_net_def Let_def length_dense)

lemma u_net_row_length: "i < length X \<Longrightarrow> length (u_net vars X z ! i) = z * 2"
  by (simp add: u_net_def Let_def length_dense dense_nth_length)

lemma length_v_net: "length (v_net vars X z m) = m"
  by (simp add: v_net_def Let_def length_dense transpose_tf_def)

lemma v_net_row_length: "j < m \<Longrightarrow> length (v_net vars X z m ! j) = z * 2"
  by (simp add: v_net_def Let_def length_dense dense_nth_length transpose_tf_def)

lemma length_concat_uniform:
  "\<forall>r\<in>set xss. length r = m \<Longrightarrow> length (concat xss) = length xss * m"
  by (induction xss) auto

lemma nth_concat_uniform:
  "\<forall>r\<in>set xss. length r = m \<Longrightarrow> i < length xss \<Longrightarrow> j < m \<Longrightarrow>
   concat xss ! (i * m + j) = xss ! i ! j"
proof (induction xss arbitrary: i)
  case Nil
  then show ?case by simp
next
  case (Cons r xss)
  show ?case
  proof (cases i)
    case 0
    with Cons.prems show ?thesis by (simp add: nth_append)
  next
    case (Suc i')
    with Cons.prems have "concat xss ! (i' * m + j) = xss ! i' ! j"
      by (intro Cons.IH) auto
    moreover have "length r = m" using Cons.prems by simp
    ultimately show ?thesis using Suc by (simp add: nth_append)
  qed
qed

lemma sum_list_nth_lessThan: "sum_list xs = (\<Sum>i<length xs. xs ! i)"
  by (simp add: sum_list_sum_nth lessThan_atLeast0)

lemma dot_sum:
  "length x = d \<Longrightarrow> length y = d \<Longrightarrow> dot x y = (\<Sum>k<d. x ! k * y ! k)"
proof -
  assume x: "length x = d" and y: "length y = d"
  have "dot x y = (\<Sum>k = 0..<length (map2 (*) x y). map2 (*) x y ! k)"
    unfolding dot_def by (rule sum_list_sum_nth)
  also have "\<dots> = (\<Sum>k = 0..<d. x ! k * y ! k)"
    using x y by (intro sum.cong) auto
  finally show ?thesis by (simp add: lessThan_atLeast0)
qed

lemma length_tensordot: "length (tensordot u v) = length u"
  by (simp add: tensordot_def)

lemma tensordot_rows: "\<forall>r\<in>set (tensordot u v). length r = length v"
  by (auto simp: tensordot_def)

lemma nth_tensordot:
  "i < length u \<Longrightarrow> j < length v \<Longrightarrow> tensordot u v ! i ! j = dot (u ! i) (v ! j)"
  by (simp add: tensordot_def)

lemma length_concat_tensordot: "length (concat (tensordot u v)) = length u * length v"
  using length_concat_uniform [OF tensordot_rows, of u v] by (simp only: length_tensordot)

lemma length_sample: "length (sample q noise) = length q"
  by (simp add: sample_def)

subsection \<open>Rounding to float32\<close>














subsection \<open>Sample evaluations\<close>

lemma reshape_example:
  "reshape [1, 2, 3, 4, 5, 6] 2 3 = Inr [[1, 2, 3], [4, 5, 6]] \<and>
   reshape [1, 2, 3, 4, 5, 6] 2 2 = Inl InvalidArgumentError"
  by (simp add: reshape_def upt_rec)

text \<open>Ties go to the even significand, and \<open>1/10\<close> becomes \<open>13421773 / 2\<^sup>2\<^sup>7\<close>.\<close>

lemma float32_round_example:
  "float32_round 16777217 = 16777216 \<and> float32_round 16777219 = 16777220 \<and>
   float32_round (1 / 10) = 13421773 / 134217728"
proof -
  have fl: "\<lfloor>log 2 \<bar>16777217 :: real\<bar>\<rfloor> = 24" "\<lfloor>log 2 \<bar>16777219 :: real\<bar>\<rfloor> = 24"
    by (simp_all add: floor_eq_iff le_log_iff log_less_iff)
  have fl': "\<lfloor>log 2 \<bar>1 / 10 :: real\<bar>\<rfloor> = - 4"
    by (simp add: floor_eq_iff le_log_iff log_less_iff powr_minus)
  have f: "\<lfloor>16777219 / 2 :: real\<rfloor> = 8388609" "\<lfloor>134217728 / 10 :: real\<rfloor> = 13421772"
    by (simp_all add: floor_eq_iff)
  have "float32_round 16777217 = 16777216"
    unfolding float32_round_def Let_def fl
    by (simp add: round_half_even_def Let_def floor_eq_iff)
  moreover have "float32_round 16777219 = 16777220"
    unfolding float32_round_def Let_def fl
    by (simp add: round_half_even_def Let_def f)
  moreover have "float32_round (1 / 10) = 13421773 / 134217728"
    unfolding float32_round_def Let_def fl'
    by (simp add: round_half_even_def Let_def powr_minus f)
  ultimately show ?thesis by simp
qed

lemma transpose_tf_example: "transpose_tf 3 [[1, 2, 3], [4, 5, 6]] = [[1, 4], [2, 5], [3, 6]]"
  by (simp add: transpose_tf_def upt_rec)

lemma dense_example:
  "dense [[1, 2], [3, 4]] 1 id \<lparr>kernel = [[1], [10]], bias = [5]\<rparr> = [[26], [48]]"
  by (simp add: dense_def dot_def upt_rec)

lemma tensordot_example: "tensordot [[1, 2]] [[3, 4], [5, 6]] = [[11, 17]]"
  by (simp add: tensordot_def dot_def)

lemma sample_example:
  "sample [\<lparr>loc = [1, 2], scale_diag = [3, 4]\<rparr>, \<lparr>loc = [0, 0], scale_diag = [1, 1]\<rparr>]
     (\<lambda>i d. real i + 1) = [[4, 6], [2, 2]]"
  by (simp add: sample_def enumerate_eq_zip upt_rec)

lemma kl_row_example:
  "kl_row \<lparr>loc = [1, 0], scale_diag = [1, 1]\<rparr> (fst (make_prior 2)) = 1 / 2"
  by (simp add: kl_row_def kl_term_def make_prior_def numeral_2_eq_2)

text \<open>With total count 2 and logit 0, the log-probability of the value 1 is \<open>- ln 2\<close>.\<close>

lemma binomial_log_prob_example:
  "binomial_log_prob (tf_lgamma (frozen_library cfg)) 2 0 1 = - ln 2"
  by (simp add: binomial_log_prob_def frozen_library_def sigmoid_def ln_div numeral_2_eq_2)

lemma notebook_batch: "batch_size notebook_config * M notebook_config = 100000"
  by (simp add: batch_size_def notebook_config_def)

subsection \<open>Distributions, encoder and decoder\<close>

lemma kl_term_self: "s \<noteq> 0 \<Longrightarrow> kl_term (l, s) (l, s) = 0"
  by (simp add: kl_term_def)

lemma nth_MultivariateNormalDiag:
  "i < length ls \<Longrightarrow> i < length ss \<Longrightarrow>
   MultivariateNormalDiag ls ss ! i = \<lparr>loc = ls ! i, scale_diag = ss ! i\<rparr>"
  by (simp add: MultivariateNormalDiag_def)

lemma length_MultivariateNormalDiag:
  "length (MultivariateNormalDiag ls ss) = min (length ls) (length ss)"
  by (simp add: MultivariateNormalDiag_def)

lemma make_encoder_lengths:
  assumes "reshape data b m = Inr X"
  shows "\<exists>u v. make_encoder vars data z b m = Inr (u, v) \<and> length u = b \<and> length v = m"
proof -
  have "length X = b" using assms by (rule reshape_length)
  then show ?thesis
    by (simp add: make_encoder_def assms Let_def length_MultivariateNormalDiag
        length_u_net length_v_net)
qed

lemma make_decoder_shape:
  assumes "length u = n" "length v = m"
  shows "make_decoder u v n m d = Inr \<lparr>logits = [map softplus (concat (tensordot u v))], total_count = 2\<rparr>"
proof -
  have "length (concat (tensordot u v)) = m * n"
    using assms length_concat_uniform [OF tensordot_rows, of u v]
    by (simp add: length_tensordot mult.commute)
  then have "reshape (concat (tensordot u v)) 1 (m * n) = Inr [concat (tensordot u v)]"
    by (rule reshape_one_row)
  then show ?thesis by (simp add: make_decoder_def Let_def)
qed

lemma make_decoder_logits_pos:
  assumes "make_decoder u v b m d = Inr dec"
  shows "\<forall>r\<in>set (logits dec). \<forall>l\<in>set r. 0 < l"
proof -
  from assms obtain z where "reshape (concat (tensordot u v)) 1 (m * b) = Inr z"
    and "dec = \<lparr>logits = map (map softplus) z, total_count = 2\<rparr>"
    by (auto simp: make_decoder_def Let_def split: sum.splits)
  then show ?thesis by (auto simp: softplus_pos)
qed

subsection \<open>The graph\<close>

lemma sum_kl_divergence:
  "sum_list (kl_divergence q p) = (\<Sum>i<length q. kl_row (q ! i) p)"
proof -
  have "sum_list (kl_divergence q p) = (\<Sum>i<length q. kl_divergence q p ! i)"
    using sum_list_nth_lessThan [of "kl_divergence q p"] by (simp add: kl_divergence_def)
  also have "\<dots> = (\<Sum>i<length q. kl_row (q ! i) p)"
    by (intro sum.cong) (auto simp: kl_divergence_def)
  finally show ?thesis .
qed

lemma sum_log_prob:
  assumes "length ls = length xs"
  shows "sum_list (log_prob lg \<lparr>logits = [ls], total_count = n\<rparr> [xs]) =
         (\<Sum>k<length xs. binomial_log_prob lg n (ls ! k) (xs ! k))"
proof -
  have "sum_list (log_prob lg \<lparr>logits = [ls], total_count = n\<rparr> [xs]) =
        sum_list (map2 (binomial_log_prob lg n) ls xs)"
    by (simp add: log_prob_def)
  also have "\<dots> = (\<Sum>k<length (map2 (binomial_log_prob lg n) ls xs).
                        map2 (binomial_log_prob lg n) ls xs ! k)"
    by (rule sum_list_nth_lessThan)
  also have "\<dots> = (\<Sum>k<length xs. binomial_log_prob lg n (ls ! k) (xs ! k))"
    using assms by (intro sum.cong) auto
  finally show ?thesis .
qed

lemma model_graph_unfold:
  assumes enc: "make_encoder vars (map real_of_int raw) (D cfg) (batch_size cfg) (M cfg) = Inr (ue, ve)"
    and dec: "make_decoder (sample ue nu) (sample ve nv) (batch_size cfg) (M cfg) (D cfg) = Inr dec"
    and obs: "reshape (map real_of_int raw) 1 (N cfg * M cfg) = Inr x"
  shows "model_graph lg cfg vars nu nv raw =
           Inr \<lparr>elbo = - sum_list (kl_divergence ue (fst (make_prior (D cfg))))
                         - sum_list (kl_divergence ve (snd (make_prior (D cfg))))
                         + sum_list (log_prob lg dec x),
                 minus_u_kl = - sum_list (kl_divergence ue (fst (make_prior (D cfg)))),
                 minus_v_kl = - sum_list (kl_divergence ve (snd (make_prior (D cfg)))),
                 likelihood = sum_list (log_prob lg dec x)\<rparr>"
  using obs by (simp add: model_graph_def enc dec Let_def split_beta)

lemma model_graph_closed_form:
  assumes len: "length raw = N cfg * M cfg"
  shows "\<exists>ue ve ls m.
     make_encoder vars (map real_of_int raw) (D cfg) (batch_size cfg) (M cfg) = Inr (ue, ve) \<and>
     length ue = N cfg \<and> length ve = M cfg \<and>
     make_decoder (sample ue nu) (sample ve nv) (batch_size cfg) (M cfg) (D cfg) =
       Inr \<lparr>logits = [ls], total_count = 2\<rparr> \<and>
     length ls = N cfg * M cfg \<and>
     model_graph lg cfg vars nu nv raw = Inr m \<and>
     minus_u_kl m = - (\<Sum>i<N cfg. kl_row (ue ! i) (fst (make_prior (D cfg)))) \<and>
     minus_v_kl m = - (\<Sum>j<M cfg. kl_row (ve ! j) (snd (make_prior (D cfg)))) \<and>
     likelihood m = (\<Sum>k<N cfg * M cfg. binomial_log_prob lg 2 (ls ! k) (real_of_int (raw ! k))) \<and>
     elbo m = minus_u_kl m + minus_v_kl m + likelihood m"
proof -
  let ?data = "map real_of_int raw"
  have "length ?data = batch_size cfg * M cfg" using len by (simp add: batch_size_def)
  then obtain X where X: "reshape ?data (batch_size cfg) (M cfg) = Inr X"
    using reshape_Inr_iff by blast
  from make_encoder_lengths [OF X, of vars "D cfg"] obtain ue ve
    where enc: "make_encoder vars ?data (D cfg) (batch_size cfg) (M cfg) = Inr (ue, ve)"
      and lue: "length ue = N cfg" and lve: "length ve = M cfg"
    unfolding batch_size_def by blast
  let ?ls = "map softplus (concat (tensordot (sample ue nu) (sample ve nv)))"
  let ?dec = "\<lparr>logits = [?ls], total_count = 2\<rparr>"
  have dec: "make_decoder (sample ue nu) (sample ve nv) (batch_size cfg) (M cfg) (D cfg) = Inr ?dec"
    by (rule make_decoder_shape) (simp_all add: length_sample lue lve batch_size_def)
  have lls: "length ?ls = N cfg * M cfg"
  proof -
    have "length (concat (tensordot (sample ue nu) (sample ve nv))) =
          length (sample ue nu) * length (sample ve nv)"
      by (rule length_concat_tensordot)
    then show ?thesis by (simp add: length_sample lue lve del: length_concat)
  qed
  have obs: "reshape ?data 1 (N cfg * M cfg) = Inr [?data]"
    by (rule reshape_one_row) (simp add: len)
  let ?ukl = "sum_list (kl_divergence ue (fst (make_prior (D cfg))))"
  let ?vkl = "sum_list (kl_divergence ve (snd (make_prior (D cfg))))"
  let ?lik = "sum_list (log_prob lg ?dec [?data])"
  let ?m = "\<lparr>elbo = - ?ukl - ?vkl + ?lik, minus_u_kl = - ?ukl, minus_v_kl = - ?vkl,
             likelihood = ?lik\<rparr>"
  have g: "model_graph lg cfg vars nu nv raw = Inr ?m"
    by (rule model_graph_unfold [OF enc dec obs])
  have u: "?ukl = (\<Sum>i<N cfg. kl_row (ue ! i) (fst (make_prior (D cfg))))"
    by (simp add: sum_kl_divergence lue)
  have v: "?vkl = (\<Sum>j<M cfg. kl_row (ve ! j) (snd (make_prior (D cfg))))"
    by (simp add: sum_kl_divergence lve)
  have "?lik = (\<Sum>k<length ?data. binomial_log_prob lg 2 (?ls ! k) (?data ! k))"
    by (rule sum_log_prob) (use lls len in simp)
  also have "\<dots> = (\<Sum>k<N cfg * M cfg. binomial_log_prob lg 2 (?ls ! k) (real_of_int (raw ! k)))"
    using len by (intro sum.cong) auto
  finally have l: "?lik = (\<Sum>k<N cfg * M cfg. binomial_log_prob lg 2 (?ls ! k) (real_of_int (raw ! k)))" .
  have "minus_u_kl ?m = - (\<Sum>i<N cfg. kl_row (ue ! i) (fst (make_prior (D cfg))))"
    using u by simp
  moreover have "minus_v_kl ?m = - (\<Sum>j<M cfg. kl_row (ve ! j) (snd (make_prior (D cfg))))"
    using v by simp
  moreover have "likelihood ?m = (\<Sum>k<N cfg * M cfg. binomial_log_prob lg 2 (?ls ! k) (real_of_int (raw ! k)))"
    using l by simp
  moreover have "elbo ?m = minus_u_kl ?m + minus_v_kl ?m + likelihood ?m" by simp
  ultimately show ?thesis using enc lue lve dec lls g by blast
qed

lemma model_graph_fails:
  assumes "length raw \<noteq> N cfg * M cfg"
  shows "model_graph lg cfg vars nu nv raw = Inl InvalidArgumentError"
proof -
  have "reshape (map real_of_int raw) (batch_size cfg) (M cfg) = Inl InvalidArgumentError"
    using assms by (simp add: reshape_def batch_size_def)
  then have "make_encoder vars (map real_of_int raw) (D cfg) (batch_size cfg) (M cfg) = Inl InvalidArgumentError"
    by (simp add: make_encoder_def)
  then show ?thesis by (simp add: model_graph_def Let_def split_beta)
qed

lemma single_prior_same:
  "model_graph_single_prior lg cfg vars nu nv raw = model_graph lg cfg vars nu nv raw"
  by (simp add: model_graph_def model_graph_single_prior_def Let_def split_beta make_prior_def
      split: sum.splits)

subsection \<open>The training loop\<close>

lemma sess_run_exhausted:
  "iterator s = Some it \<Longrightarrow> get_next src it = None \<Longrightarrow>
   sess_run g lib cfg src s = Inl OutOfRangeError"
  by (simp add: sess_run_def)

lemma sess_run_raises:
  "iterator s = Some it \<Longrightarrow> get_next src it = Some (raw, it') \<Longrightarrow>
   g (tf_lgamma lib) cfg (variables s) (random_normal_u lib (runs s))
     (random_normal_v lib (runs s)) raw = Inl e \<Longrightarrow>
   sess_run g lib cfg src s = Inl e"
  by (simp add: sess_run_def)

lemma sess_run_step:
  assumes "iterator s = Some it" "get_next src it = Some (raw, it')"
    and "g (tf_lgamma lib) cfg (variables s) (random_normal_u lib (runs s))
           (random_normal_v lib (runs s)) raw = Inr m"
  shows "\<exists>s'. sess_run g lib cfg src s = Inr ((m, elbo m), s') \<and>
          (variables s', slots s') =
            minimize lib (\<lambda>vars. map_sum id (\<lambda>m. - elbo m)
                (g (tf_lgamma lib) cfg vars (random_normal_u lib (runs s))
                   (random_normal_v lib (runs s)) raw)) (variables s, slots s) \<and>
          iterator s' = Some it' \<and> runs s' = Suc (runs s) \<and>
          stdout s' = stdout s \<and> summaries s' = summaries s"
  using assms by (simp add: sess_run_def Let_def split_beta)

lemma batch_loop_exhausted:
  "iterator s = Some it \<Longrightarrow> get_next src it = None \<Longrightarrow>
   batch_loop g lib cfg src epoch s = Some (Finished s)"
  by (subst batch_loop.simps) (simp add: sess_run_exhausted)

lemma batch_loop_returns:
  "yields src it bs \<Longrightarrow> iterator s = Some it \<Longrightarrow>
   \<exists>out. batch_loop g lib cfg src epoch s = Some out"
proof (induction bs arbitrary: it s)
  case Nil
  then show ?case by (simp add: batch_loop_exhausted)
next
  case (Cons b bs)
  from Cons.prems(1) obtain it' where nxt: "get_next src it = Some (b, it')"
    and rest: "yields src it' bs"
    by (auto split: option.splits)
  show ?case
  proof (cases "sess_run g lib cfg src s")
    case (Inl e)
    then show ?thesis by (subst batch_loop.simps) simp
  next
    case (Inr r)
    then obtain m x s' where r: "sess_run g lib cfg src s = Inr ((m, x), s')"
      by (cases r) auto
    then have "iterator s' = Some it'"
      using Cons.prems(2) nxt
      by (auto simp: sess_run_def Let_def split_beta split: sum.splits)
    then have "\<exists>out. batch_loop g lib cfg src epoch
        (s'\<lparr>stdout := stdout s' @ [x], summaries := summaries s' @ [(m, epoch)]\<rparr>) = Some out"
      by (intro Cons.IH [OF rest]) simp
    then show ?thesis by (subst batch_loop.simps) (simp add: r)
  qed
qed

lemma batch_loop_finishes:
  "yields src it bs \<Longrightarrow> \<forall>b\<in>set bs. length b = N cfg * M cfg \<Longrightarrow> iterator s = Some it \<Longrightarrow>
   \<exists>s'. batch_loop model_graph lib cfg src epoch s = Some (Finished s') \<and>
        length (stdout s') = length (stdout s) + length bs \<and>
        map snd (summaries s') = map snd (summaries s) @ replicate (length bs) epoch \<and>
        runs s' = runs s + length bs"
proof (induction bs arbitrary: it s)
  case Nil
  then show ?case by (simp add: batch_loop_exhausted)
next
  case (Cons b bs)
  from Cons.prems(1) obtain it' where nxt: "get_next src it = Some (b, it')"
    and rest: "yields src it' bs"
    by (auto split: option.splits)
  from Cons.prems(2) have "length b = N cfg * M cfg" by simp
  then obtain m where m: "model_graph (tf_lgamma lib) cfg (variables s) (random_normal_u lib (runs s))
           (random_normal_v lib (runs s)) b = Inr m"
    using model_graph_closed_form by blast
  from sess_run_step [where g = model_graph and lib = lib and cfg = cfg, OF Cons.prems(3) nxt m] obtain s1
    where run: "sess_run model_graph lib cfg src s = Inr ((m, elbo m), s1)"
      and s1: "iterator s1 = Some it'" "runs s1 = Suc (runs s)"
        "stdout s1 = stdout s" "summaries s1 = summaries s"
    by blast
  let ?s2 = "s1\<lparr>stdout := stdout s1 @ [elbo m], summaries := summaries s1 @ [(m, epoch)]\<rparr>"
  have "\<exists>s'. batch_loop model_graph lib cfg src epoch ?s2 = Some (Finished s') \<and>
        length (stdout s') = length (stdout ?s2) + length bs \<and>
        map snd (summaries s') = map snd (summaries ?s2) @ replicate (length bs) epoch \<and>
        runs s' = runs ?s2 + length bs"
    using Cons.prems(2) s1 by (intro Cons.IH [OF rest]) simp_all
  then obtain s' where fin: "batch_loop model_graph lib cfg src epoch ?s2 = Some (Finished s')"
    and out: "length (stdout s') = length (stdout ?s2) + length bs"
      "map snd (summaries s') = map snd (summaries ?s2) @ replicate (length bs) epoch"
      "runs s' = runs ?s2 + length bs"
    by blast
  have "batch_loop model_graph lib cfg src epoch s = Some (Finished s')"
    by (subst batch_loop.simps) (simp add: run fin)
  moreover have "length (stdout s') = length (stdout s) + length (b # bs)"
    using out(1) s1 by simp
  moreover have "map snd (summaries s') = map snd (summaries s) @ replicate (length (b # bs)) epoch"
    using out(2) s1 by (simp add: replicate_append_same)
  moreover have "runs s' = runs s + length (b # bs)"
    using out(3) s1 by simp
  ultimately show ?case by blast
qed

lemma epoch_loop_returns:
  "yields src (initializer src) bs \<Longrightarrow> \<exists>out. epoch_loop g lib cfg src es s = Some out"
proof (induction es arbitrary: s)
  case Nil
  then show ?case by simp
next
  case (Cons e es)
  have "\<exists>out. batch_loop g lib cfg src e (s\<lparr>iterator := Some (initializer src)\<rparr>) = Some out"
    using Cons.prems by (rule batch_loop_returns) simp
  then obtain out where out: "batch_loop g lib cfg src e (s\<lparr>iterator := Some (initializer src)\<rparr>) = Some out"
    by blast
  show ?case
  proof (cases out)
    case (Finished s')
    with out Cons.IH [OF Cons.prems, of s'] show ?thesis by simp
  next
    case (Aborted err s')
    with out show ?thesis by simp
  qed
qed

lemma epoch_loop_finishes:
  "yields src (initializer src) bs \<Longrightarrow> \<forall>b\<in>set bs. length b = N cfg * M cfg \<Longrightarrow>
   \<exists>s'. epoch_loop model_graph lib cfg src es s = Some (Finished s') \<and>
        length (stdout s') = length (stdout s) + length es * length bs \<and>
        map snd (summaries s') = map snd (summaries s) @ concat (map (replicate (length bs)) es) \<and>
        runs s' = runs s + length es * length bs"
proof (induction es arbitrary: s)
  case Nil
  then show ?case by simp
next
  case (Cons e es)
  let ?s0 = "s\<lparr>iterator := Some (initializer src)\<rparr>"
  from batch_loop_finishes [where s = ?s0 and epoch = e and lib = lib, OF Cons.prems(1) Cons.prems(2)]
  obtain s1
    where b: "batch_loop model_graph lib cfg src e ?s0 = Some (Finished s1)"
      and s1: "length (stdout s1) = length (stdout s) + length bs"
        "map snd (summaries s1) = map snd (summaries s) @ replicate (length bs) e"
        "runs s1 = runs s + length bs"
    by auto
  from Cons.IH [OF Cons.prems, of s1] obtain s'
    where r: "epoch_loop model_graph lib cfg src es s1 = Some (Finished s')"
      and s': "length (stdout s') = length (stdout s1) + length es * length bs"
        "map snd (summaries s') = map snd (summaries s1) @ concat (map (replicate (length bs)) es)"
        "runs s' = runs s1 + length es * length bs"
    by blast
  have "epoch_loop model_graph lib cfg src (e # es) s = Some (Finished s')"
    by (simp add: b r)
  moreover have "length (stdout s') = length (stdout s) + length (e # es) * length bs"
    using s'(1) s1(1) by simp
  moreover have "map snd (summaries s') =
      map snd (summaries s) @ concat (map (replicate (length bs)) (e # es))"
    using s'(2) s1(2) by simp
  moreover have "runs s' = runs s + length (e # es) * length bs"
    using s'(3) s1(3) by simp
  ultimately show ?case by blast
qed

lemma batch_loop_bad_batch:
  assumes "iterator s = Some it" "get_next src it = Some (raw, it')"
    and "length raw \<noteq> N cfg * M cfg"
  shows "batch_loop model_graph lib cfg src epoch s = Some (Aborted InvalidArgumentError s)"
proof -
  have "sess_run model_graph lib cfg src s = Inl InvalidArgumentError"
    using assms(1,2) model_graph_fails [OF assms(3)]
    by (intro sess_run_raises [where raw = raw]) auto
  then show ?thesis by (subst batch_loop.simps) simp
qed

lemma batch_loop_aborts:
  "yields src it (pre @ bad # post) \<Longrightarrow> \<forall>b\<in>set pre. length b = N cfg * M cfg \<Longrightarrow>
   length bad \<noteq> N cfg * M cfg \<Longrightarrow> iterator s = Some it \<Longrightarrow>
   \<exists>s'. batch_loop model_graph lib cfg src epoch s = Some (Aborted InvalidArgumentError s') \<and>
        length (stdout s') = length (stdout s) + length pre \<and>
        map snd (summaries s') = map snd (summaries s) @ replicate (length pre) epoch \<and>
        runs s' = runs s + length pre"
proof (induction pre arbitrary: it s)
  case Nil
  from Nil.prems(1) obtain it' where "get_next src it = Some (bad, it')"
    by (auto split: option.splits)
  with Nil.prems have "batch_loop model_graph lib cfg src epoch s = Some (Aborted InvalidArgumentError s)"
    by (intro batch_loop_bad_batch) auto
  then show ?case by simp
next
  case (Cons b pre)
  from Cons.prems(1) obtain it' where nxt: "get_next src it = Some (b, it')"
    and rest: "yields src it' (pre @ bad # post)"
    by (auto split: option.splits)
  from Cons.prems(2) have "length b = N cfg * M cfg" by simp
  then obtain m where m: "model_graph (tf_lgamma lib) cfg (variables s) (random_normal_u lib (runs s))
           (random_normal_v lib (runs s)) b = Inr m"
    using model_graph_closed_form by blast
  from sess_run_step [where g = model_graph and lib = lib and cfg = cfg, OF Cons.prems(4) nxt m]
  obtain s1
    where run: "sess_run model_graph lib cfg src s = Inr ((m, elbo m), s1)"
      and s1: "iterator s1 = Some it'" "runs s1 = Suc (runs s)"
        "stdout s1 = stdout s" "summaries s1 = summaries s"
    by blast
  let ?s2 = "s1\<lparr>stdout := stdout s1 @ [elbo m], summaries := summaries s1 @ [(m, epoch)]\<rparr>"
  have "\<exists>s'. batch_loop model_graph lib cfg src epoch ?s2 = Some (Aborted InvalidArgumentError s') \<and>
        length (stdout s') = length (stdout ?s2) + length pre \<and>
        map snd (summaries s') = map snd (summaries ?s2) @ replicate (length pre) epoch \<and>
        runs s' = runs ?s2 + length pre"
    using Cons.prems(2,3) s1 by (intro Cons.IH [OF rest]) simp_all
  then obtain s' where fin: "batch_loop model_graph lib cfg src epoch ?s2 = Some (Aborted InvalidArgumentError s')"
    and out: "length (stdout s') = length (stdout ?s2) + length pre"
      "map snd (summaries s') = map snd (summaries ?s2) @ replicate (length pre) epoch"
      "runs s' = runs ?s2 + length pre"
    by blast
  have "batch_loop model_graph lib cfg src epoch s = Some (Aborted InvalidArgumentError s')"
    by (subst batch_loop.simps) (simp add: run fin)
  moreover have "length (stdout s') = length (stdout s) + length (b # pre)"
    using out(1) s1 by simp
  moreover have "map snd (summaries s') = map snd (summaries s) @ replicate (length (b # pre)) epoch"
    using out(2) s1 by (simp add: replicate_append_same)
  moreover have "runs s' = runs s + length (b # pre)"
    using out(3) s1 by simp
  ultimately show ?case by blast
qed

lemma yields_list_source: "yields (list_source bs0) bs bs"
  by (induction bs) (simp_all add: list_source_def)

lemma train_unfold:
  "train g lib cfg src = epoch_loop g lib cfg src [0..<epochs cfg] (start_session lib None)"
  by (simp add: train_def start_session_def split_beta)

lemma train_returns:
  "yields src (initializer src) bs \<Longrightarrow> \<exists>out. train g lib cfg src = Some out"
  unfolding train_unfold by (rule epoch_loop_returns)

lemma train_finishes:
  assumes "yields src (initializer src) bs" and "\<forall>b\<in>set bs. length b = N cfg * M cfg"
  shows "\<exists>s'. train model_graph lib cfg src = Some (Finished s') \<and>
           length (stdout s') = epochs cfg * length bs \<and>
           map snd (summaries s') = concat (map (replicate (length bs)) [0..<epochs cfg]) \<and>
           runs s' = epochs cfg * length bs"
  using epoch_loop_finishes [where lib = lib and es = "[0..<epochs cfg]"
      and s = "start_session lib None", OF assms]
  unfolding train_unfold by (simp add: start_session_def)

lemma train_aborts:
  assumes "yields src (initializer src) (pre @ bad # post)"
    and "\<forall>b\<in>set pre. length b = N cfg * M cfg" and "length bad \<noteq> N cfg * M cfg"
    and "0 < epochs cfg"
  shows "\<exists>s'. train model_graph lib cfg src = Some (Aborted InvalidArgumentError s') \<and>
           length (stdout s') = length pre \<and>
           map snd (summaries s') = replicate (length pre) 0"
proof -
  let ?s0 = "(start_session lib None)\<lparr>iterator := Some (initializer src)\<rparr>"
  from assms(4) have ep: "[0..<epochs cfg] = 0 # [1..<epochs cfg]"
    by (simp add: upt_conv_Cons)
  have "iterator ?s0 = Some (initializer src)" by simp
  from batch_loop_aborts [OF assms(1,2,3) this, of lib 0] obtain s'
    where b: "batch_loop model_graph lib cfg src 0 ?s0 = Some (Aborted InvalidArgumentError s')"
      and l: "length (stdout s') = length (stdout ?s0) + length pre"
        "map snd (summaries s') = map snd (summaries ?s0) @ replicate (length pre) 0"
    by blast
  have "train model_graph lib cfg src = Some (Aborted InvalidArgumentError s')"
    unfolding train_unfold ep using b by simp
  moreover have "length (stdout s') = length pre" "map snd (summaries s') = replicate (length pre) 0"
    using l by (simp_all add: start_session_def)
  ultimately show ?thesis by blast
qed

section \<open>The claims\<close>

text \<open>
  C1. The training objective is
  \<open>elbo = - (\<Sum> rows of U. KL(row \<parallel> U prior)) - (\<Sum> rows of V. KL(row \<parallel> V prior)) + likelihood\<close>,
  with the \<open>N\<close> sample rows and the \<open>M\<close> variant rows all summed and the likelihood the
  summed Binomial log-probability of the \<open>N * M\<close> observed entries under the decoder,
  and the optimizer is handed the negated objective as a function of the variables.
  Stated for a run of the training operation on a batch of \<open>N * M\<close> values.
\<close>

theorem elbo_objective:
  assumes "iterator s = Some it" and "get_next src it = Some (raw, it')"
    and "length raw = N cfg * M cfg"
  shows "\<exists>u_encoder v_encoder ls m s'.
     make_encoder (variables s) (map real_of_int raw) (D cfg) (batch_size cfg) (M cfg) =
       Inr (u_encoder, v_encoder) \<and>
     length u_encoder = N cfg \<and> length v_encoder = M cfg \<and>
     make_decoder (sample u_encoder (random_normal_u lib (runs s)))
         (sample v_encoder (random_normal_v lib (runs s))) (batch_size cfg) (M cfg) (D cfg) =
       Inr \<lparr>logits = [ls], total_count = 2\<rparr> \<and>
     length ls = N cfg * M cfg \<and>
     sess_run model_graph lib cfg src s = Inr ((m, elbo m), s') \<and>
     elbo m = - (\<Sum>i<N cfg. kl_row (u_encoder ! i) (fst (make_prior (D cfg))))
              - (\<Sum>j<M cfg. kl_row (v_encoder ! j) (snd (make_prior (D cfg))))
              + (\<Sum>k<N cfg * M cfg.
                   binomial_log_prob (tf_lgamma lib) 2 (ls ! k) (real_of_int (raw ! k))) \<and>
     (variables s', slots s') =
       minimize lib
         (\<lambda>vars. map_sum id (\<lambda>m. - elbo m)
            (model_graph (tf_lgamma lib) cfg vars (random_normal_u lib (runs s))
               (random_normal_v lib (runs s)) raw))
         (variables s, slots s)"
proof -
  let ?nu = "random_normal_u lib (runs s)" and ?nv = "random_normal_v lib (runs s)"
  from model_graph_closed_form [OF assms(3), of "variables s" ?nu ?nv "tf_lgamma lib"]
  obtain ue ve ls m
    where enc: "make_encoder (variables s) (map real_of_int raw) (D cfg) (batch_size cfg) (M cfg) =
        Inr (ue, ve)"
      and len: "length ue = N cfg" "length ve = M cfg"
      and dec: "make_decoder (sample ue ?nu) (sample ve ?nv) (batch_size cfg) (M cfg) (D cfg) =
        Inr \<lparr>logits = [ls], total_count = 2\<rparr>"
      and lls: "length ls = N cfg * M cfg"
      and g: "model_graph (tf_lgamma lib) cfg (variables s) ?nu ?nv raw = Inr m"
      and u: "minus_u_kl m = - (\<Sum>i<N cfg. kl_row (ue ! i) (fst (make_prior (D cfg))))"
      and v: "minus_v_kl m = - (\<Sum>j<M cfg. kl_row (ve ! j) (snd (make_prior (D cfg))))"
      and l: "likelihood m = (\<Sum>k<N cfg * M cfg.
                   binomial_log_prob (tf_lgamma lib) 2 (ls ! k) (real_of_int (raw ! k)))"
      and e: "elbo m = minus_u_kl m + minus_v_kl m + likelihood m"
    by blast
  from sess_run_step [where g = model_graph and lib = lib and cfg = cfg, OF assms(1,2) g]
  obtain s' where run: "sess_run model_graph lib cfg src s = Inr ((m, elbo m), s')"
    and upd: "(variables s', slots s') =
       minimize lib
         (\<lambda>vars. map_sum id (\<lambda>m. - elbo m)
            (model_graph (tf_lgamma lib) cfg vars ?nu ?nv raw))
         (variables s, slots s)"
    by blast
  have "elbo m = - (\<Sum>i<N cfg. kl_row (ue ! i) (fst (make_prior (D cfg))))
              - (\<Sum>j<M cfg. kl_row (ve ! j) (snd (make_prior (D cfg))))
              + (\<Sum>k<N cfg * M cfg.
                   binomial_log_prob (tf_lgamma lib) 2 (ls ! k) (real_of_int (raw ! k)))"
    unfolding e u v l by simp
  with enc len dec lls run upd show ?thesis by blast
qed

theorem elbo_objective_witness:
  "iterator (start_session (frozen_library (small_config 1)) (Some [[0, 1 :: int]])) = Some [[0, 1]] \<and>
   get_next (list_source [[0, 1]]) [[0, 1]] = Some ([0, 1], []) \<and>
   length [0, 1 :: int] = N (small_config 1) * M (small_config 1) \<and>
   (\<exists>m s'. sess_run model_graph (frozen_library (small_config 1)) (small_config 1)
              (list_source [[0, 1]])
              (start_session (frozen_library (small_config 1)) (Some [[0, 1]])) =
            Inr ((m, elbo m), s') \<and>
          variables s' = zero_vars (small_config 1))"
proof -
  let ?cfg = "small_config 1"
  let ?lib = "frozen_library ?cfg"
  let ?s = "start_session ?lib (Some [[0, 1 :: int]])"
  have h1: "iterator ?s = Some [[0, 1]]" by (simp add: start_session_def)
  have h2: "get_next (list_source [[0, 1]]) [[0, 1]] = Some ([0, 1], [])"
    by (simp add: list_source_def)
  have h3: "length [0, 1 :: int] = N ?cfg * M ?cfg" by (simp add: small_config_def)
  from elbo_objective [OF h1 h2 h3, of ?lib] obtain m s'
    where run: "sess_run model_graph ?lib ?cfg (list_source [[0, 1]]) ?s = Inr ((m, elbo m), s')"
      and upd: "(variables s', slots s') =
       minimize ?lib
         (\<lambda>vars. map_sum id (\<lambda>m. - elbo m)
            (model_graph (tf_lgamma ?lib) ?cfg vars (random_normal_u ?lib (runs ?s))
               (random_normal_v ?lib (runs ?s)) [0, 1]))
         (variables ?s, slots ?s)"
    by blast
  from upd have "variables s' = zero_vars ?cfg"
    by (simp add: frozen_library_def start_session_def)
  with run h1 h2 h3 show ?thesis by blast
qed

text \<open>
  C2. In every forward pass of the encoder the two paths split the columns of their
  last projection, which is \<open>2 * z_dim\<close> wide, in opposite ways: the location of U is
  the first half and its scale is \<open>softplus (x + 0.5)\<close> of the second half, while the
  location of V is the second half (columns \<open>z_dim\<close> to \<open>2 * z_dim\<close>) and its scale is
  \<open>softplus (x + 0.5)\<close> of the first half.
\<close>

theorem encoder_column_split:
  assumes "reshape data batch_sz num_features = Inr X"
  shows "\<exists>u v. make_encoder vars data z_dim batch_sz num_features = Inr (u, v) \<and>
    length u = batch_sz \<and> length v = num_features \<and>
    (\<forall>i<batch_sz.
       length (u_net vars X z_dim ! i) = 2 * z_dim \<and>
       length (loc (u ! i)) = z_dim \<and> length (scale_diag (u ! i)) = z_dim \<and>
       (\<forall>d<z_dim. loc (u ! i) ! d = u_net vars X z_dim ! i ! d \<and>
              scale_diag (u ! i) ! d = softplus (u_net vars X z_dim ! i ! (z_dim + d) + 0.5))) \<and>
    (\<forall>j<num_features.
       length (v_net vars X z_dim num_features ! j) = 2 * z_dim \<and>
       length (loc (v ! j)) = z_dim \<and> length (scale_diag (v ! j)) = z_dim \<and>
       (\<forall>d<z_dim. loc (v ! j) ! d = v_net vars X z_dim num_features ! j ! (z_dim + d) \<and>
              scale_diag (v ! j) ! d = softplus (v_net vars X z_dim num_features ! j ! d + 0.5)))"
proof -
  let ?un = "u_net vars X z_dim" and ?vn = "v_net vars X z_dim num_features"
  let ?sp = "\<lambda>x::real. softplus (x + 0.5)"
  let ?u = "MultivariateNormalDiag (map (take z_dim) ?un) (map (\<lambda>r. map ?sp (drop z_dim r)) ?un)"
  let ?v = "MultivariateNormalDiag (map (drop z_dim) ?vn) (map (\<lambda>r. map ?sp (take z_dim r)) ?vn)"
  have lenX: "length X = batch_sz" using assms by (rule reshape_length)
  have enc: "make_encoder vars data z_dim batch_sz num_features = Inr (?u, ?v)"
    by (simp add: make_encoder_def assms Let_def)
  have lu: "length ?u = batch_sz"
    by (simp add: length_MultivariateNormalDiag length_u_net lenX)
  have lv: "length ?v = num_features"
    by (simp add: length_MultivariateNormalDiag length_v_net)
  have pu: "length (?un ! i) = 2 * z_dim \<and> length (loc (?u ! i)) = z_dim \<and> length (scale_diag (?u ! i)) = z_dim \<and>
       (\<forall>d<z_dim. loc (?u ! i) ! d = ?un ! i ! d \<and> scale_diag (?u ! i) ! d = ?sp (?un ! i ! (z_dim + d)))"
    if "i < batch_sz" for i
  proof -
    from that have i: "i < length ?un" by (simp add: length_u_net lenX)
    have w: "length (?un ! i) = z_dim * 2" using that by (simp add: u_net_row_length lenX)
    have row: "?u ! i = \<lparr>loc = take z_dim (?un ! i), scale_diag = map ?sp (drop z_dim (?un ! i))\<rparr>"
      using i by (simp add: nth_MultivariateNormalDiag)
    show ?thesis unfolding row using w by simp
  qed
  have pv: "length (?vn ! j) = 2 * z_dim \<and> length (loc (?v ! j)) = z_dim \<and> length (scale_diag (?v ! j)) = z_dim \<and>
       (\<forall>d<z_dim. loc (?v ! j) ! d = ?vn ! j ! (z_dim + d) \<and> scale_diag (?v ! j) ! d = ?sp (?vn ! j ! d))"
    if "j < num_features" for j
  proof -
    from that have j: "j < length ?vn" by (simp add: length_v_net)
    have w: "length (?vn ! j) = z_dim * 2" using that by (simp add: v_net_row_length)
    have row: "?v ! j = \<lparr>loc = drop z_dim (?vn ! j), scale_diag = map ?sp (take z_dim (?vn ! j))\<rparr>"
      using j by (simp add: nth_MultivariateNormalDiag)
    show ?thesis unfolding row using w by simp
  qed
  from enc lu lv pu pv show ?thesis by blast
qed

theorem encoder_column_split_witness:
  "reshape [0, 1, 2, 1] 2 2 = Inr [[0, 1], [2, 1]] \<and>
   (\<exists>u v. make_encoder (zero_vars \<lparr>N = 2, M = 2, D = 1, epochs = 1\<rparr>) [0, 1, 2, 1] 1 2 2 = Inr (u, v) \<and>
      length u = 2 \<and> length v = 2 \<and>
      loc (v ! 0) ! 0 = v_net (zero_vars \<lparr>N = 2, M = 2, D = 1, epochs = 1\<rparr>) [[0, 1], [2, 1]] 1 2 ! 0 ! 1 \<and>
      scale_diag (v ! 0) ! 0 =
        softplus (v_net (zero_vars \<lparr>N = 2, M = 2, D = 1, epochs = 1\<rparr>) [[0, 1], [2, 1]] 1 2 ! 0 ! 0 + 0.5) \<and>
      loc (u ! 0) ! 0 = u_net (zero_vars \<lparr>N = 2, M = 2, D = 1, epochs = 1\<rparr>) [[0, 1], [2, 1]] 1 ! 0 ! 0 \<and>
      scale_diag (u ! 0) ! 0 =
        softplus (u_net (zero_vars \<lparr>N = 2, M = 2, D = 1, epochs = 1\<rparr>) [[0, 1], [2, 1]] 1 ! 0 ! 1 + 0.5))"
proof -
  let ?vars = "zero_vars \<lparr>N = 2, M = 2, D = 1, epochs = 1\<rparr>"
  have h: "reshape [0, 1, 2, 1] 2 2 = Inr [[0, 1], [2, 1]]"
    by (simp add: reshape_def upt_rec)
  from encoder_column_split [OF h, of ?vars 1] obtain u v
    where "make_encoder ?vars [0, 1, 2, 1] 1 2 2 = Inr (u, v)" "length u = 2" "length v = 2"
      and u: "\<forall>i<2. length (u_net ?vars [[0, 1], [2, 1]] 1 ! i) = 2 * 1 \<and>
       length (loc (u ! i)) = 1 \<and> length (scale_diag (u ! i)) = 1 \<and>
       (\<forall>d<1. loc (u ! i) ! d = u_net ?vars [[0, 1], [2, 1]] 1 ! i ! d \<and>
              scale_diag (u ! i) ! d = softplus (u_net ?vars [[0, 1], [2, 1]] 1 ! i ! (1 + d) + 0.5))"
      and v: "\<forall>j<2. length (v_net ?vars [[0, 1], [2, 1]] 1 2 ! j) = 2 * 1 \<and>
       length (loc (v ! j)) = 1 \<and> length (scale_diag (v ! j)) = 1 \<and>
       (\<forall>d<1. loc (v ! j) ! d = v_net ?vars [[0, 1], [2, 1]] 1 2 ! j ! (1 + d) \<and>
              scale_diag (v ! j) ! d = softplus (v_net ?vars [[0, 1], [2, 1]] 1 2 ! j ! d + 0.5))"
    by blast
  moreover from u have "loc (u ! 0) ! 0 = u_net ?vars [[0, 1], [2, 1]] 1 ! 0 ! 0"
    "scale_diag (u ! 0) ! 0 = softplus (u_net ?vars [[0, 1], [2, 1]] 1 ! 0 ! 1 + 0.5)"
    by simp_all
  moreover from v have "loc (v ! 0) ! 0 = v_net ?vars [[0, 1], [2, 1]] 1 2 ! 0 ! 1"
    "scale_diag (v ! 0) ! 0 = softplus (v_net ?vars [[0, 1], [2, 1]] 1 2 ! 0 ! 0 + 0.5)"
    by simp_all
  ultimately show ?thesis using h by blast
qed




text \<open>
  C4. For a sampled U with \<open>n\<close> rows and V with \<open>m\<close> rows, all of width \<open>d\<close>, the decoder
  returns a Binomial with total count 2 whose logits are one row of length \<open>n * m\<close>; the
  entry for sample \<open>i\<close> and variant \<open>j\<close> sits at position \<open>i * m + j\<close>, is the softplus of
  the dot product of row \<open>i\<close> of U and row \<open>j\<close> of V over the \<open>d\<close> latent dimensions, and
  is not negative.
\<close>

theorem decoder_bilinear_logits:
  assumes "length u = n" and "length v = m"
    and "\<forall>r\<in>set u. length r = d" and "\<forall>r\<in>set v. length r = d"
  shows "\<exists>ls. make_decoder u v n m d = Inr \<lparr>logits = [ls], total_count = 2\<rparr> \<and>
           length ls = n * m \<and>
           (\<forall>i<n. \<forall>j<m. ls ! (i * m + j) = softplus (\<Sum>k<d. u ! i ! k * v ! j ! k) \<and>
                          0 \<le> ls ! (i * m + j))"
proof -
  let ?z = "concat (tensordot u v)"
  have len: "length ?z = n * m"
    using assms(1,2) length_concat_uniform [OF tensordot_rows, of u v]
    by (simp add: length_tensordot)
  have ent: "map softplus ?z ! (i * m + j) = softplus (\<Sum>k<d. u ! i ! k * v ! j ! k)"
    if "i < n" "j < m" for i j
  proof -
    have "i * m + j < n * m"
    proof -
      have "i * m + j < i * m + m" using that by simp
      also have "\<dots> = Suc i * m" by simp
      also have "\<dots> \<le> n * m" using that by (intro mult_le_mono1) simp
      finally show ?thesis .
    qed
    then have "map softplus ?z ! (i * m + j) = softplus (?z ! (i * m + j))"
      using len by simp
    also have "?z ! (i * m + j) = tensordot u v ! i ! j"
      using that assms(1,2) tensordot_rows [of u v]
      by (intro nth_concat_uniform) (auto simp: length_tensordot)
    also have "\<dots> = dot (u ! i) (v ! j)"
      using that assms(1,2) by (simp add: nth_tensordot)
    also have "\<dots> = (\<Sum>k<d. u ! i ! k * v ! j ! k)"
      using that assms by (intro dot_sum) auto
    finally show ?thesis .
  qed
  have "make_decoder u v n m d = Inr \<lparr>logits = [map softplus ?z], total_count = 2\<rparr>"
    using assms(1,2) by (rule make_decoder_shape)
  moreover have "length (map softplus ?z) = n * m" using len by simp
  moreover have "\<forall>i<n. \<forall>j<m. map softplus ?z ! (i * m + j) = softplus (\<Sum>k<d. u ! i ! k * v ! j ! k) \<and>
                          0 \<le> map softplus ?z ! (i * m + j)"
    using ent by (simp add: softplus_nonneg)
  ultimately show ?thesis by blast
qed

theorem decoder_bilinear_logits_witness:
  "length [[1, 2 :: real]] = 1 \<and> length [[3, 4], [5, 6 :: real]] = 2 \<and>
   map length [[1, 2 :: real]] = [2] \<and> map length [[3, 4], [5, 6 :: real]] = [2, 2] \<and>
   make_decoder [[1, 2]] [[3, 4], [5, 6]] 1 2 2 =
     Inr \<lparr>logits = [[softplus 11, softplus 17]], total_count = 2\<rparr>"
proof -
  let ?u = "[[1, 2 :: real]]" and ?v = "[[3, 4], [5, 6 :: real]]"
  have h1: "length ?u = 1" and h2: "length ?v = 2"
    and h3: "\<forall>r\<in>set ?u. length r = 2" and h4: "\<forall>r\<in>set ?v. length r = 2"
    by simp_all
  from decoder_bilinear_logits [OF h1 h2 h3 h4] obtain ls
    where dec: "make_decoder ?u ?v 1 2 2 = Inr \<lparr>logits = [ls], total_count = 2\<rparr>"
      and len: "length ls = 1 * 2"
      and ent: "\<forall>i<1. \<forall>j<2. ls ! (i * 2 + j) = softplus (\<Sum>k<2. ?u ! i ! k * ?v ! j ! k) \<and>
                          0 \<le> ls ! (i * 2 + j)"
    by blast
  from ent [rule_format, of 0 0] have e0: "ls ! 0 = softplus 11"
    by (simp add: lessThan_Suc numeral_2_eq_2)
  from ent [rule_format, of 0 1] have e1: "ls ! 1 = softplus 17"
    by (simp add: lessThan_Suc numeral_2_eq_2)
  from len obtain a b where "ls = [a, b]"
    by (cases ls; cases "tl ls") auto
  with e0 e1 have "ls = [softplus 11, softplus 17]" by simp
  with dec show ?thesis by simp
qed

text \<open>
  C5 (as amended). For every number of epochs and every data source that signals
  exhaustion after finitely many batches, the training cell terminates. When every batch
  has exactly \<open>N * M\<close> values it ends after exactly \<open>epochs\<close> full passes: one step per
  batch and pass, the summaries of pass \<open>e\<close> written under step \<open>e\<close>, whatever values the
  objective takes and whatever the optimizer does, so nothing but the epoch budget ends
  such a run. Where a batch has another size, the step that pulls the first such batch
  raises \<^verbatim>\<open>InvalidArgumentError\<close> and the run ends there, in the first epoch.
\<close>

theorem training_fixed_epoch_budget:
  assumes "yields src (initializer src) bs"
  shows "(\<exists>out. train model_graph lib cfg src = Some out) \<and>
         ((\<forall>b\<in>set bs. length b = N cfg * M cfg) \<longrightarrow>
            (\<exists>s'. train model_graph lib cfg src = Some (Finished s') \<and>
                  length (stdout s') = epochs cfg * length bs \<and>
                  map snd (summaries s') = concat (map (replicate (length bs)) [0..<epochs cfg]) \<and>
                  runs s' = epochs cfg * length bs)) \<and>
         (\<forall>pre bad post.
            bs = pre @ bad # post \<and> (\<forall>b\<in>set pre. length b = N cfg * M cfg) \<and>
            length bad \<noteq> N cfg * M cfg \<and> 0 < epochs cfg \<longrightarrow>
            (\<exists>s'. train model_graph lib cfg src = Some (Aborted InvalidArgumentError s') \<and>
                  length (stdout s') = length pre \<and>
                  map snd (summaries s') = replicate (length pre) 0))"
proof -
  have a: "\<exists>out. train model_graph lib cfg src = Some out"
    using assms by (rule train_returns)
  have b: "\<exists>s'. train model_graph lib cfg src = Some (Finished s') \<and>
                  length (stdout s') = epochs cfg * length bs \<and>
                  map snd (summaries s') = concat (map (replicate (length bs)) [0..<epochs cfg]) \<and>
                  runs s' = epochs cfg * length bs"
    if "\<forall>b\<in>set bs. length b = N cfg * M cfg"
    using assms that by (rule train_finishes)
  have c: "\<exists>s'. train model_graph lib cfg src = Some (Aborted InvalidArgumentError s') \<and>
                  length (stdout s') = length pre \<and>
                  map snd (summaries s') = replicate (length pre) 0"
    if "bs = pre @ bad # post" "\<forall>b\<in>set pre. length b = N cfg * M cfg"
      "length bad \<noteq> N cfg * M cfg" "0 < epochs cfg" for pre bad post
    using assms that by (intro train_aborts [where bad = bad and post = post]) simp_all
  from a b c show ?thesis by blast
qed

theorem training_fixed_epoch_budget_witness:
  "yields (list_source [[0, 1], [2, 0]]) (initializer (list_source [[0, 1], [2, 0]]))
     [[0, 1], [2, 0]] \<and>
   map length [[0, 1], [2, 0 :: int]] = [N (small_config 3) * M (small_config 3),
     N (small_config 3) * M (small_config 3)] \<and>
   map_option raised (train model_graph (frozen_library (small_config 3)) (small_config 3)
       (list_source [[0, 1], [2, 0]])) = Some None \<and>
   map_option logged_epochs (train model_graph (frozen_library (small_config 3)) (small_config 3)
       (list_source [[0, 1], [2, 0]])) = Some [0, 0, 1, 1, 2, 2]"
proof -
  let ?cfg = "small_config 3"
  let ?src = "list_source [[0, 1], [2, 0]]"
  have y: "yields ?src (initializer ?src) [[0, 1], [2, 0]]"
    by (simp add: list_source_def)
  have ok: "\<forall>b\<in>set [[0, 1], [2, 0 :: int]]. length b = N ?cfg * M ?cfg"
    by (simp add: small_config_def)
  from training_fixed_epoch_budget [OF y, of "frozen_library ?cfg" ?cfg] ok
  obtain s' where t: "train model_graph (frozen_library ?cfg) ?cfg ?src = Some (Finished s')"
    and l: "map snd (summaries s') = concat (map (replicate (length [[0, 1], [2, 0 :: int]]))
              [0..<epochs ?cfg])"
    by blast
  have "[0..<epochs ?cfg] = [0, 1, 2]"
    by (simp add: small_config_def upt_rec)
  with l have "map snd (summaries s') = [0, 0, 1, 1, 2, 2]"
    by (simp add: numeral_2_eq_2)
  with t y show ?thesis
    by (simp add: raised_def logged_epochs_def final_session_def small_config_def)
qed

text \<open>
  The claim as it was stated fails where a batch has the wrong number of values: the
  source below signals exhaustion after two batches and two epochs are asked for, but the
  second batch holds one record instead of two, the run ends with
  \<^verbatim>\<open>InvalidArgumentError\<close> and only one step of epoch 0 was logged.
\<close>

theorem training_fixed_epoch_budget_counterexample:
  "yields (list_source [[0, 1], [2]]) (initializer (list_source [[0, 1], [2]])) [[0, 1], [2]] \<and>
   map_option raised (train model_graph (frozen_library (small_config 2)) (small_config 2)
       (list_source [[0, 1], [2]])) = Some (Some InvalidArgumentError) \<and>
   map_option logged_epochs (train model_graph (frozen_library (small_config 2)) (small_config 2)
       (list_source [[0, 1], [2]])) = Some [0]"
proof -
  let ?cfg = "small_config 2"
  let ?src = "list_source [[0, 1], [2]]"
  have y: "yields ?src (initializer ?src) [[0, 1], [2]]"
    by (simp add: list_source_def)
  then have y': "yields ?src (initializer ?src) ([[0, 1]] @ [2] # [])" by simp
  have "\<exists>s'. train model_graph (frozen_library ?cfg) ?cfg ?src =
            Some (Aborted InvalidArgumentError s') \<and>
          length (stdout s') = length [[0, 1 :: int]] \<and>
          map snd (summaries s') = replicate (length [[0, 1 :: int]]) 0"
    by (rule train_aborts [OF y']) (simp_all add: small_config_def)
  then obtain s' where "train model_graph (frozen_library ?cfg) ?cfg ?src =
            Some (Aborted InvalidArgumentError s')"
    and "map snd (summaries s') = [0]"
    by auto
  with y show ?thesis
    by (simp add: raised_def logged_epochs_def final_session_def)
qed

text \<open>
  C6. When the data source signals exhaustion, the batch loop of the epoch ends normally:
  it hands the session back unchanged and raises nothing. Every epoch starts by
  reinitialising the iterator, so it does not matter where the iterator stood before, and
  an epoch entered with the iterator exhausted, as the previous epoch leaves it, processes
  all batches of the dataset again from the first.
\<close>

theorem exhaustion_ends_epoch:
  assumes "iterator s = Some it" and "get_next src it = None"
  shows "sess_run model_graph lib cfg src s = Inl OutOfRangeError \<and>
         batch_loop model_graph lib cfg src epoch s = Some (Finished s) \<and>
         epoch_loop model_graph lib cfg src (epoch # rest) s =
           epoch_loop model_graph lib cfg src (epoch # rest)
             (s\<lparr>iterator := Some (initializer src)\<rparr>) \<and>
         (yields src (initializer src) bs \<and> (\<forall>b\<in>set bs. length b = N cfg * M cfg) \<longrightarrow>
            (\<exists>s'. epoch_loop model_graph lib cfg src [epoch] s = Some (Finished s') \<and>
                  length (stdout s') = length (stdout s) + length bs \<and>
                  map snd (summaries s') = map snd (summaries s) @ replicate (length bs) epoch \<and>
                  runs s' = runs s + length bs))"
proof -
  have a: "sess_run model_graph lib cfg src s = Inl OutOfRangeError"
    using assms by (rule sess_run_exhausted)
  have b: "batch_loop model_graph lib cfg src epoch s = Some (Finished s)"
    using assms by (rule batch_loop_exhausted)
  have c: "epoch_loop model_graph lib cfg src (epoch # rest) s =
           epoch_loop model_graph lib cfg src (epoch # rest)
             (s\<lparr>iterator := Some (initializer src)\<rparr>)"
    by simp
  have d: "\<exists>s'. epoch_loop model_graph lib cfg src [epoch] s = Some (Finished s') \<and>
               length (stdout s') = length (stdout s) + length bs \<and>
               map snd (summaries s') = map snd (summaries s) @ replicate (length bs) epoch \<and>
               runs s' = runs s + length bs"
    if "yields src (initializer src) bs" and "\<forall>b\<in>set bs. length b = N cfg * M cfg"
    using epoch_loop_finishes [where lib = lib and es = "[epoch]" and s = s, OF that]
    by simp
  from a b c d show ?thesis by blast
qed

theorem exhaustion_ends_epoch_witness:
  "iterator (start_session (frozen_library (small_config 2)) (Some ([] :: int list list))) = Some [] \<and>
   get_next (list_source [[0, 1], [2, 0]]) [] = None \<and>
   yields (list_source [[0, 1], [2, 0]]) (initializer (list_source [[0, 1], [2, 0]]))
     [[0, 1], [2, 0]] \<and>
   map length [[0, 1], [2, 0 :: int]] = [N (small_config 2) * M (small_config 2),
     N (small_config 2) * M (small_config 2)] \<and>
   batch_loop model_graph (frozen_library (small_config 2)) (small_config 2)
       (list_source [[0, 1], [2, 0]]) 1
       (start_session (frozen_library (small_config 2)) (Some [])) =
     Some (Finished (start_session (frozen_library (small_config 2)) (Some []))) \<and>
   map_option logged_epochs
     (epoch_loop model_graph (frozen_library (small_config 2)) (small_config 2)
        (list_source [[0, 1], [2, 0]]) [1]
        (start_session (frozen_library (small_config 2)) (Some []))) = Some [1, 1]"
proof -
  let ?cfg = "small_config 2"
  let ?lib = "frozen_library ?cfg"
  let ?src = "list_source [[0, 1], [2, 0]]"
  let ?s = "start_session ?lib (Some ([] :: int list list))"
  have h1: "iterator ?s = Some []" by (simp add: start_session_def)
  have h2: "get_next ?src [] = None" by (simp add: list_source_def)
  have h3: "yields ?src (initializer ?src) [[0, 1], [2, 0]]" by (simp add: list_source_def)
  have h4: "\<forall>b\<in>set [[0, 1], [2, 0 :: int]]. length b = N ?cfg * M ?cfg"
    by (simp add: small_config_def)
  from exhaustion_ends_epoch [OF h1 h2, of ?lib ?cfg 1 "[]" "[[0, 1], [2, 0]]"] h3 h4
  obtain s' where b: "batch_loop model_graph ?lib ?cfg ?src 1 ?s = Some (Finished ?s)"
    and e: "epoch_loop model_graph ?lib ?cfg ?src [1] ?s = Some (Finished s')"
    and l: "map snd (summaries s') = map snd (summaries ?s) @
              replicate (length [[0, 1], [2, 0 :: int]]) 1"
    by blast
  from l have "map snd (summaries s') = [1, 1]"
    by (simp add: start_session_def numeral_2_eq_2)
  with b e h1 h2 h3 show ?thesis
    by (simp add: logged_epochs_def final_session_def small_config_def)
qed

text \<open>
  C7. For every diagonal Gaussian with strictly positive scale, the closed-form divergence
  \<open>0.5 * \<Sum>\<^sub>d ((s1/s2)\<^sup>2 + ((l2 - l1)/s2)\<^sup>2 - 1 + 2 * ln (s2/s1))\<close> of the distribution to
  itself is 0.
\<close>

theorem kl_self_zero:
  assumes "\<forall>s\<in>set (scale_diag q). 0 < s"
  shows "kl_row q q = 0"
proof -
  note pos = assms
  let ?zs = "zip (loc q) (scale_diag q)"
  have "map2 kl_term ?zs ?zs = map (\<lambda>z. kl_term z z) ?zs"
    by (simp add: zip_same_conv_map)
  also have "\<dots> = map (\<lambda>z. 0) ?zs"
  proof (rule map_cong[OF refl])
    fix z assume mem: "z \<in> set ?zs"
    obtain l s where z: "z = (l, s)" by (cases z)
    from mem have "s \<in> set (scale_diag q)"
      unfolding z by (rule set_zip_rightD)
    with pos have "s \<noteq> 0" by auto
    then show "kl_term z z = 0" by (simp add: z kl_term_self)
  qed
  finally show ?thesis by (simp add: kl_row_def)
qed

theorem kl_self_zero_witness:
  "list_all (\<lambda>s. 0 < s) (scale_diag \<lparr>loc = [1, - 2], scale_diag = [1 / 2, 3]\<rparr>) \<and>
   kl_row \<lparr>loc = [1, - 2], scale_diag = [1 / 2, 3]\<rparr>
          \<lparr>loc = [1, - 2], scale_diag = [1 / 2, 3]\<rparr> = 0"
proof -
  have h: "\<forall>s\<in>set (scale_diag \<lparr>loc = [1, - 2], scale_diag = [1 / 2, 3 :: real]\<rparr>). 0 < s"
    by simp
  from kl_self_zero [OF h] show ?thesis by simp
qed

text \<open>
  C8. The prior is a function of the latent dimension alone and returns two diagonal
  Gaussians with location 0 and scale 1. The graph that builds the prior once computes
  what the graph of the notebook computes, which builds it twice and drops the first
  result, and training with either graph has the same outcome.
\<close>

theorem single_prior_equivalent:
  "make_prior z_dim =
     (\<lparr>loc = replicate z_dim 0, scale_diag = replicate z_dim 1\<rparr>,
      \<lparr>loc = replicate z_dim 0, scale_diag = replicate z_dim 1\<rparr>) \<and>
   model_graph_single_prior lgamma cfg vars noise_u noise_v raw =
     model_graph lgamma cfg vars noise_u noise_v raw \<and>
   sess_run model_graph_single_prior lib cfg src s = sess_run model_graph lib cfg src s \<and>
   train model_graph_single_prior lib cfg src = train model_graph lib cfg src"
proof -
  have "model_graph_single_prior = model_graph"
    by (intro ext) (rule single_prior_same)
  then show ?thesis by (simp add: make_prior_def)
qed

theorem single_prior_equivalent_witness:
  "make_prior 2 = (\<lparr>loc = [0, 0], scale_diag = [1, 1]\<rparr>, \<lparr>loc = [0, 0], scale_diag = [1, 1]\<rparr>) \<and>
   train model_graph_single_prior (frozen_library (small_config 3)) (small_config 3)
     (list_source [[0, 1], [2, 0]]) =
   train model_graph (frozen_library (small_config 3)) (small_config 3)
     (list_source [[0, 1], [2, 0]])"
  using single_prior_equivalent [where z_dim = 2 and cfg = "small_config 3"
      and lib = "frozen_library (small_config 3)" and src = "list_source [[0, 1], [2, 0]]"]
  by (simp add: numeral_2_eq_2)

text \<open>
  C9 (as amended). If the number of values in an incoming batch differs from
  \<open>batch_size * num_features\<close>, the reshape of the encoder fails with
  \<^verbatim>\<open>InvalidArgumentError\<close>. The error is raised by the training step that pulls the batch,
  after the steps on the batches before it have run; the loop does not catch it, so it
  ends the epoch and the whole run at that step.
\<close>

theorem reshape_mismatch_aborts_step:
  assumes "length raw \<noteq> batch_size cfg * M cfg"
    and "iterator s = Some it" and "get_next src it = Some (raw, it')"
  shows "make_encoder vars (map real_of_int raw) (D cfg) (batch_size cfg) (M cfg) =
           Inl InvalidArgumentError \<and>
         sess_run model_graph lib cfg src s = Inl InvalidArgumentError \<and>
         batch_loop model_graph lib cfg src epoch s = Some (Aborted InvalidArgumentError s) \<and>
         (yields src (initializer src) (pre @ raw # post) \<and>
          (\<forall>b\<in>set pre. length b = batch_size cfg * M cfg) \<and> 0 < epochs cfg \<longrightarrow>
            (\<exists>s'. train model_graph lib cfg src = Some (Aborted InvalidArgumentError s') \<and>
                  length (stdout s') = length pre))"
proof -
  have len: "length raw \<noteq> N cfg * M cfg" using assms(1) by (simp add: batch_size_def)
  have "reshape (map real_of_int raw) (batch_size cfg) (M cfg) = Inl InvalidArgumentError"
    using assms(1) by (simp add: reshape_def)
  then have a: "make_encoder vars (map real_of_int raw) (D cfg) (batch_size cfg) (M cfg) =
           Inl InvalidArgumentError"
    by (simp add: make_encoder_def)
  have b: "sess_run model_graph lib cfg src s = Inl InvalidArgumentError"
    using assms(2,3) model_graph_fails [OF len]
    by (intro sess_run_raises [where raw = raw]) auto
  have c: "batch_loop model_graph lib cfg src epoch s = Some (Aborted InvalidArgumentError s)"
    using assms(2,3) len by (rule batch_loop_bad_batch)
  have d: "\<exists>s'. train model_graph lib cfg src = Some (Aborted InvalidArgumentError s') \<and>
                  length (stdout s') = length pre"
    if "yields src (initializer src) (pre @ raw # post)"
      "\<forall>b\<in>set pre. length b = batch_size cfg * M cfg" "0 < epochs cfg"
    using train_aborts [where lib = lib, OF that(1) _ len that(3)] that(2)
    by (auto simp: batch_size_def)
  from a b c d show ?thesis by blast
qed

theorem reshape_mismatch_aborts_step_witness:
  "length [2 :: int] \<noteq> batch_size (small_config 1) * M (small_config 1) \<and>
   iterator (start_session (frozen_library (small_config 1)) (Some [[2 :: int]])) = Some [[2]] \<and>
   get_next (list_source [[0, 1], [2]]) [[2]] = Some ([2], []) \<and>
   yields (list_source [[0, 1], [2]]) (initializer (list_source [[0, 1], [2]])) ([[0, 1]] @ [2] # []) \<and>
   map length [[0, 1 :: int]] = [batch_size (small_config 1) * M (small_config 1)] \<and>
   0 < epochs (small_config 1) \<and>
   sess_run model_graph (frozen_library (small_config 1)) (small_config 1) (list_source [[0, 1], [2]])
     (start_session (frozen_library (small_config 1)) (Some [[2]])) = Inl InvalidArgumentError \<and>
   map_option raised (train model_graph (frozen_library (small_config 1)) (small_config 1)
     (list_source [[0, 1], [2]])) = Some (Some InvalidArgumentError) \<and>
   map_option printed (train model_graph (frozen_library (small_config 1)) (small_config 1)
     (list_source [[0, 1], [2]])) = Some 1"
proof -
  let ?cfg = "small_config 1"
  let ?lib = "frozen_library ?cfg"
  let ?src = "list_source [[0, 1], [2]]"
  let ?s = "start_session ?lib (Some [[2 :: int]])"
  have h1: "length [2 :: int] \<noteq> batch_size ?cfg * M ?cfg"
    by (simp add: small_config_def batch_size_def)
  have h2: "iterator ?s = Some [[2]]" by (simp add: start_session_def)
  have h3: "get_next ?src [[2]] = Some ([2], [])" by (simp add: list_source_def)
  have h4: "yields ?src (initializer ?src) ([[0, 1]] @ [2] # [])" by (simp add: list_source_def)
  have h5: "\<forall>b\<in>set [[0, 1 :: int]]. length b = batch_size ?cfg * M ?cfg"
    by (simp add: small_config_def batch_size_def)
  have h6: "0 < epochs ?cfg" by (simp add: small_config_def)
  from reshape_mismatch_aborts_step [where lib = ?lib and pre = "[[0, 1]]" and post = "[]",
      OF h1 h2 h3] h4 h5 h6
  obtain s' where r: "sess_run model_graph ?lib ?cfg ?src ?s = Inl InvalidArgumentError"
    and t: "train model_graph ?lib ?cfg ?src = Some (Aborted InvalidArgumentError s')"
    and l: "length (stdout s') = length [[0, 1 :: int]]"
    by blast
  from t l have "map_option raised (train model_graph ?lib ?cfg ?src) = Some (Some InvalidArgumentError)"
    and "map_option printed (train model_graph ?lib ?cfg ?src) = Some 1"
    by (simp_all add: raised_def printed_def final_session_def)
  with h1 h2 h3 h4 h6 r show ?thesis
    by (simp add: small_config_def batch_size_def)
qed

text \<open>
  The claim as it was stated fails: nothing is raised before training starts, and the
  error comes at the third training step, after two steps have run and printed their
  objective.
\<close>

theorem reshape_mismatch_at_construction_counterexample:
  "map_option raised (train model_graph (frozen_library (small_config 1)) (small_config 1)
       (list_source [[1, 0], [2, 2], [1]])) = Some (Some InvalidArgumentError) \<and>
   map_option printed (train model_graph (frozen_library (small_config 1)) (small_config 1)
       (list_source [[1, 0], [2, 2], [1]])) = Some 2"
proof -
  let ?cfg = "small_config 1"
  let ?src = "list_source [[1, 0], [2, 2], [1]]"
  have "yields ?src (initializer ?src) [[1, 0], [2, 2], [1]]"
    by (simp add: list_source_def)
  then have y: "yields ?src (initializer ?src) ([[1, 0], [2, 2]] @ [1] # [])" by simp
  have "\<exists>s'. train model_graph (frozen_library ?cfg) ?cfg ?src =
            Some (Aborted InvalidArgumentError s') \<and>
          length (stdout s') = length [[1, 0], [2, 2 :: int]] \<and>
          map snd (summaries s') = replicate (length [[1, 0], [2, 2 :: int]]) 0"
    by (rule train_aborts [OF y]) (simp_all add: small_config_def)
  then obtain s' where "train model_graph (frozen_library ?cfg) ?cfg ?src =
            Some (Aborted InvalidArgumentError s')"
    and "length (stdout s') = 2"
    by auto
  then show ?thesis
    by (simp add: raised_def printed_def final_session_def)
qed

text \<open>
  C10. Every logit the decoder produces is the image of softplus and so not negative;
  each Binomial factor therefore has success probability \<open>sigmoid logit\<close> of at least
  \<open>1/2\<close>, and its expected dosage is never below half of the total count 2.
\<close>

theorem decoder_dosage_at_least_half:
  assumes "make_decoder u v batch_sz num_features z_dim = Inr decoder_p"
  shows "(\<forall>r\<in>set (logits decoder_p). \<forall>l\<in>set r. 0 \<le> l) \<and>
         (\<forall>r\<in>set (binomial_probs decoder_p). \<forall>p\<in>set r. 1 / 2 \<le> p) \<and>
         (\<forall>r\<in>set (binomial_mean decoder_p). \<forall>\<mu>\<in>set r. total_count decoder_p / 2 \<le> \<mu>) \<and>
         total_count decoder_p = 2"
proof -
  have pos: "\<forall>r\<in>set (logits decoder_p). \<forall>l\<in>set r. 0 < l"
    using assms by (rule make_decoder_logits_pos)
  have tc: "total_count decoder_p = 2"
    using assms by (auto simp: make_decoder_def Let_def split: sum.splits)
  have probs: "\<forall>r\<in>set (binomial_probs decoder_p). \<forall>p\<in>set r. 1 / 2 \<le> p"
  proof (intro ballI)
    fix r p assume "r \<in> set (binomial_probs decoder_p)" and p: "p \<in> set r"
    then obtain ls where ls: "ls \<in> set (logits decoder_p)" and r: "r = map sigmoid ls"
      by (auto simp: binomial_probs_def)
    from p r obtain l where l: "l \<in> set ls" and pl: "p = sigmoid l" by auto
    from pos ls l have "0 \<le> l" by (auto intro: less_imp_le)
    then show "1 / 2 \<le> p" unfolding pl by (rule sigmoid_ge_half)
  qed
  have "\<forall>r\<in>set (binomial_mean decoder_p). \<forall>\<mu>\<in>set r. total_count decoder_p / 2 \<le> \<mu>"
  proof (intro ballI)
    fix r \<mu> assume "r \<in> set (binomial_mean decoder_p)" and mu: "\<mu> \<in> set r"
    then obtain ps where ps: "ps \<in> set (binomial_probs decoder_p)"
      and r: "r = map (\<lambda>p. total_count decoder_p * p) ps"
      by (auto simp: binomial_mean_def)
    from mu r obtain p where p: "p \<in> set ps" and mp: "\<mu> = total_count decoder_p * p" by auto
    from probs ps p have "1 / 2 \<le> p" by auto
    then show "total_count decoder_p / 2 \<le> \<mu>" unfolding mp tc by simp
  qed
  with pos probs tc show ?thesis by (auto intro: less_imp_le)
qed

theorem decoder_dosage_at_least_half_witness:
  "make_decoder [[1, - 2]] [[3, 4], [5, 6]] 1 2 2 =
     Inr \<lparr>logits = [[softplus (- 5), softplus (- 7)]], total_count = 2\<rparr> \<and>
   0 \<le> softplus (- 5) \<and> 1 / 2 \<le> sigmoid (softplus (- 7)) \<and> 1 \<le> 2 * sigmoid (softplus (- 5))"
proof -
  let ?dec = "\<lparr>logits = [[softplus (- 5), softplus (- 7)]], total_count = 2\<rparr>"
  have "make_decoder [[1, - 2]] [[3, 4], [5, 6]] 1 2 2 =
      Inr \<lparr>logits = [map softplus (concat (tensordot [[1, - 2]] [[3, 4], [5, 6]]))],
           total_count = 2\<rparr>"
    by (rule make_decoder_shape) simp_all
  then have h: "make_decoder [[1, - 2]] [[3, 4], [5, 6]] 1 2 2 = Inr ?dec"
    by (simp add: tensordot_def dot_def)
  from decoder_dosage_at_least_half [OF h]
  have "0 \<le> softplus (- 5)" "1 / 2 \<le> sigmoid (softplus (- 7))"
    "1 \<le> 2 * sigmoid (softplus (- 5))"
    by (simp_all add: binomial_probs_def binomial_mean_def)
  with h show ?thesis by simp
qed

end
